theory Spec2Isabelle
  imports Complex_Main "HOL-Library.Sublist" "HOL-Library.AList"
begin

section \<open>JavaScript values shared by the models\<close>

text \<open>
  The sources are TypeScript. At run time a configuration bag or a metadata bag is a
  JavaScript object: a finite map from property names to values. The values that the
  modelled code inspects are numbers, strings, booleans, \<open>null\<close> and
  \<open>undefined\<close>; \<open>JNaN\<close> stands for the number NaN, which no real number models.
  An optional parameter that is left out is \<open>None\<close>.
\<close>

datatype jsval = JUndefined | JNull | JBool bool | JNum real | JNaN | JStr string

type_synonym js_object = "string \<rightharpoonup> jsval"

text \<open>The object spread \<open>{...m}\<close>; spreading \<open>undefined\<close> contributes no property.\<close>

definition spread :: "js_object option \<Rightarrow> js_object" where
  "spread m = (case m of None \<Rightarrow> Map.empty | Some obj \<Rightarrow> obj)"

text \<open>
  The nullish coalescing \<open>a ?? d\<close> on a property read: a missing property reads as
  \<open>undefined\<close>, and \<open>undefined\<close> and \<open>null\<close> select the default.
\<close>

definition nullish :: "jsval option \<Rightarrow> jsval \<Rightarrow> jsval" where
  "nullish a d = (case a of None \<Rightarrow> d | Some JUndefined \<Rightarrow> d | Some JNull \<Rightarrow> d | Some v \<Rightarrow> v)"

text \<open>An exception thrown by the code, with its message.\<close>

datatype js_error = Error string

section \<open>DemonstrationCollector (src/bc/DemonstrationCollector.ts)\<close>

record DemonstrationStep =
  observation :: "real list"
  action :: "real list"
  step_metadata :: js_object

record DemonstrationEpisode =
  episode_id :: string
  steps :: "DemonstrationStep list"
  episode_metadata :: js_object

record DemonstrationCollector =
  autoRecord :: jsval
  maxBufferSize :: real
  currentEpisode :: "DemonstrationEpisode option"
  episodeBuffer :: "DemonstrationEpisode list"
  isRecording :: bool

text \<open>
  The clock and the subtraction of the host: \<open>clock_now\<close> is what \<open>Date.now()\<close>
  returns at the call, and \<open>js_minus\<close> is JavaScript's binary minus, which coerces
  its operands (the start time of an episode is read back from a metadata bag that the
  caller can overwrite with any value).
\<close>

record js_clock =
  clock_now :: real
  js_minus :: "jsval \<Rightarrow> jsval \<Rightarrow> jsval"

text \<open>
  The constructor, for a configuration whose \<open>maxBufferSize\<close> (when given) is a number.
\<close>

definition new_DemonstrationCollector :: "jsval option \<Rightarrow> real option \<Rightarrow> DemonstrationCollector" where
  "new_DemonstrationCollector cfg_autoRecord cfg_maxBufferSize =
     \<lparr> autoRecord = nullish cfg_autoRecord (JBool False),
       maxBufferSize = (case cfg_maxBufferSize of None \<Rightarrow> 10000 | Some n \<Rightarrow> n),
       currentEpisode = None,
       episodeBuffer = [],
       isRecording = False \<rparr>"

text \<open>
  \<open>flushCurrentEpisode\<close>: a non-empty current episode is pushed to the buffer and a new
  episode with the same id, no steps and a copy of the metadata takes its place.
\<close>

definition flushCurrentEpisode :: "DemonstrationCollector \<Rightarrow> DemonstrationCollector" where
  "flushCurrentEpisode c =
     (case currentEpisode c of
        None \<Rightarrow> c
      | Some ep \<Rightarrow>
          if length (steps ep) > 0
          then c\<lparr> episodeBuffer := episodeBuffer c @ [ep],
                  currentEpisode := Some \<lparr> episode_id = episode_id ep, steps = [],
                                           episode_metadata = episode_metadata ep \<rparr> \<rparr>
          else c)"

text \<open>
  \<open>recordStep\<close>. The step's metadata is \<open>{stepIndex: steps.length, ...stepMetadata}\<close>:
  the properties of \<open>stepMetadata\<close> are written after \<open>stepIndex\<close> and override it.
\<close>

definition recordStep ::
  "real list \<Rightarrow> real list \<Rightarrow> js_object option \<Rightarrow> DemonstrationCollector \<Rightarrow> DemonstrationCollector" where
  "recordStep obs act stepMetadata c =
     (if \<not> isRecording c then c
      else case currentEpisode c of
        None \<Rightarrow> c
      | Some ep \<Rightarrow>
          let step = \<lparr> observation = obs, action = act,
                       step_metadata =
                         [''stepIndex'' \<mapsto> JNum (real (length (steps ep)))] ++ spread stepMetadata \<rparr>;
              ep' = ep\<lparr> steps := steps ep @ [step] \<rparr>;
              c' = c\<lparr> currentEpisode := Some ep' \<rparr>
          in if real (length (steps ep')) \<ge> maxBufferSize c then flushCurrentEpisode c' else c')"

text \<open>
  \<open>endEpisode\<close> returns the completed episode, or \<open>None\<close> for JavaScript's \<open>null\<close>.
  The final metadata is \<open>{...metadata, ...episodeMetadata, duration: Date.now() - startTime}\<close>.
\<close>

definition endEpisode ::
  "js_clock \<Rightarrow> js_object option \<Rightarrow> DemonstrationCollector
     \<Rightarrow> DemonstrationEpisode option \<times> DemonstrationCollector" where
  "endEpisode clk episodeMetadata c =
     (if \<not> isRecording c then (None, c)
      else case currentEpisode c of
        None \<Rightarrow> (None, c)
      | Some ep \<Rightarrow>
          let startTime = (case episode_metadata ep ''timestamp'' of None \<Rightarrow> JUndefined | Some t \<Rightarrow> t);
              episode = ep\<lparr> episode_metadata :=
                           (episode_metadata ep ++ spread episodeMetadata)
                             (''duration'' \<mapsto> js_minus clk (JNum (clock_now clk)) startTime) \<rparr>
          in (Some episode,
              c\<lparr> episodeBuffer := episodeBuffer c @ [episode],
                 currentEpisode := None,
                 isRecording := False \<rparr>))"

text \<open>\<open>startEpisode\<close> ends an episode that is still being recorded, then opens a new one.\<close>

definition startEpisode ::
  "js_clock \<Rightarrow> string \<Rightarrow> js_object option \<Rightarrow> DemonstrationCollector \<Rightarrow> DemonstrationCollector" where
  "startEpisode clk episodeId md c =
     (let c1 = (if isRecording c then snd (endEpisode clk None c) else c)
      in c1\<lparr> currentEpisode :=
                Some \<lparr> episode_id = episodeId, steps = [],
                       episode_metadata = [''timestamp'' \<mapsto> JNum (clock_now clk)] ++ spread md \<rparr>,
              isRecording := True \<rparr>)"

definition discardEpisode :: "DemonstrationCollector \<Rightarrow> DemonstrationCollector" where
  "discardEpisode c = c\<lparr> currentEpisode := None, isRecording := False \<rparr>"

text \<open>Every step the collector holds, buffered episodes first, in recording order.\<close>

definition recorded_steps :: "DemonstrationCollector \<Rightarrow> DemonstrationStep list" where
  "recorded_steps c =
     concat (map steps (episodeBuffer c))
       @ (case currentEpisode c of None \<Rightarrow> [] | Some ep \<Rightarrow> steps ep)"

text \<open>
  The collector for the examples: a new collector after \<open>startEpisode('ep1')\<close> at time
  1000. No step is recorded yet.
\<close>

definition recording_collector :: DemonstrationCollector where
  "recording_collector =
     \<lparr> autoRecord = JBool False,
       maxBufferSize = 10000,
       currentEpisode = Some \<lparr> episode_id = ''ep1'', steps = [],
                                episode_metadata = [''timestamp'' \<mapsto> JNum 1000] \<rparr>,
       episodeBuffer = [],
       isRecording = True \<rparr>"

section \<open>The browser's localStorage\<close>

text \<open>
  \<open>localStorage\<close> holds string values under string keys, enumerated by \<open>key(i)\<close> for
  \<open>i < length\<close>. \<open>setItem\<close> throws when the browser's quota would be exceeded; which
  contents the browser accepts is a parameter (\<open>accepts\<close>). \<open>getItem\<close> and \<open>key\<close>
  return \<open>null\<close> (\<open>None\<close>) for a missing key or index.
\<close>

record local_storage =
  entries :: "(string \<times> string) list"
  accepts :: "(string \<times> string) list \<Rightarrow> bool"

definition getItem :: "string \<Rightarrow> local_storage \<Rightarrow> string option" where
  "getItem k s = map_of (entries s) k"

definition setItem :: "string \<Rightarrow> string \<Rightarrow> local_storage \<Rightarrow> js_error + local_storage" where
  "setItem k v s =
     (if accepts s (AList.update k v (entries s))
      then Inr (s\<lparr> entries := AList.update k v (entries s) \<rparr>)
      else Inl (Error ''QuotaExceededError''))"

definition removeItem :: "string \<Rightarrow> local_storage \<Rightarrow> local_storage" where
  "removeItem k s = s\<lparr> entries := AList.delete k (entries s) \<rparr>"

definition storage_length :: "local_storage \<Rightarrow> nat" where
  "storage_length s = length (entries s)"

definition storage_key :: "nat \<Rightarrow> local_storage \<Rightarrow> string option" where
  "storage_key i s = (if i < length (entries s) then Some (fst (entries s ! i)) else None)"

text \<open>
  The \<open>for (let i = 0; i < localStorage.length; i++)\<close> loops of the sources read
  \<open>key(i)\<close> and collect or sum over the keys that pass a test; none of them changes the
  storage while it runs. \<open>keys_from i s\<close> is the list of the keys \<open>key(i), key(i+1), ...\<close>
  in that order.
\<close>

function keys_from :: "nat \<Rightarrow> local_storage \<Rightarrow> string list" where
  "keys_from i s =
     (if i < storage_length s
      then (case storage_key i s of None \<Rightarrow> keys_from (Suc i) s | Some k \<Rightarrow> k # keys_from (Suc i) s)
      else [])"
  by pat_completeness auto
termination
  by (relation "measure (\<lambda>(i, s). storage_length s - i)") auto

declare keys_from.simps [simp del]

section \<open>DemonstrationStorage (src/unnamed/part_001)\<close>

text \<open>
  The ambient host at the moment of a call: whether the global \<open>window\<close> is defined, and
  the global \<open>localStorage\<close> (\<open>None\<close> when it is not defined; reading it then throws a
  ReferenceError).
\<close>

record host =
  window_defined :: bool
  localStorage :: "local_storage option"

record DemonstrationStorage =
  storageKey :: string
  format :: string
  isBrowser :: bool

text \<open>\<open>a || d\<close> on an optional string: \<open>undefined\<close> and the empty string select \<open>d\<close>.\<close>

definition or_default :: "string option \<Rightarrow> string \<Rightarrow> string" where
  "or_default a d = (case a of None \<Rightarrow> d | Some v \<Rightarrow> if v = [] then d else v)"

text \<open>
  The constructor reads the host once: \<open>typeof window !== 'undefined' && typeof
  localStorage !== 'undefined'\<close>.
\<close>

definition new_DemonstrationStorage :: "host \<Rightarrow> string option \<Rightarrow> string option \<Rightarrow> DemonstrationStorage" where
  "new_DemonstrationStorage h cfg_storageKey cfg_format =
     \<lparr> storageKey = or_default cfg_storageKey ''mimicrl_demonstrations'',
       format = or_default cfg_format ''json'',
       isBrowser = (window_defined h \<and> localStorage h \<noteq> None) \<rparr>"

definition fs_not_implemented :: js_error where
  "fs_not_implemented =
     Error ''File system storage not implemented. Use browser environment or implement fs module.''"

definition localStorage_not_defined :: js_error where
  "localStorage_not_defined = Error ''ReferenceError: localStorage is not defined''"

text \<open>
  \<open>JSON.stringify\<close> and \<open>JSON.parse\<close> on datasets are parameters; \<open>parse\<close> is
  \<open>None\<close> on a string that is not JSON, where \<open>JSON.parse\<close> throws a SyntaxError.
\<close>

record 'd json_codec =
  stringify :: "'d \<Rightarrow> string"
  parse :: "string \<Rightarrow> 'd option"

text \<open>
  \<open>saveDataset\<close>. \<open>timestamp\<close> is the decimal text of \<open>Date.now()\<close>. A missing or
  empty \<open>filename\<close> is generated. Each operation returns its result (or the error it
  throws) and the host after the call.
\<close>

definition saveDataset ::
  "'d json_codec \<Rightarrow> string \<Rightarrow> DemonstrationStorage \<Rightarrow> 'd \<Rightarrow> string option \<Rightarrow> host
     \<Rightarrow> (js_error + string) \<times> host" where
  "saveDataset codec timestamp this dataset filename h =
     (let filename' = or_default filename
            (''demonstrations_'' @ timestamp @ ''.''
               @ (if format this = ''json'' then ''json'' else ''bin''))
      in if isBrowser this
         then (case localStorage h of
                 None \<Rightarrow> (Inl localStorage_not_defined, h)
               | Some ls \<Rightarrow>
                   let key = storageKey this @ ''_'' @ filename';
                       json = stringify codec dataset
                   in (case setItem key json ls of
                         Inl e \<Rightarrow> (Inl e, h)
                       | Inr ls' \<Rightarrow> (Inr key, h\<lparr> localStorage := Some ls' \<rparr>)))
         else (Inl fs_not_implemented, h))"

definition loadDataset ::
  "'d json_codec \<Rightarrow> DemonstrationStorage \<Rightarrow> string \<Rightarrow> host \<Rightarrow> (js_error + 'd) \<times> host" where
  "loadDataset codec this key h =
     (if isBrowser this
      then (case localStorage h of
              None \<Rightarrow> (Inl localStorage_not_defined, h)
            | Some ls \<Rightarrow>
                (case getItem key ls of
                   None \<Rightarrow> (Inl (Error (''Dataset not found: '' @ key)), h)
                 | Some json \<Rightarrow>
                     if json = [] then (Inl (Error (''Dataset not found: '' @ key)), h)
                     else (case parse codec json of
                             None \<Rightarrow> (Inl (Error ''SyntaxError''), h)
                           | Some dataset \<Rightarrow> (Inr dataset, h))))
      else (Inl fs_not_implemented, h))"

definition listDatasets ::
  "DemonstrationStorage \<Rightarrow> host \<Rightarrow> (js_error + string list) \<times> host" where
  "listDatasets this h =
     (if isBrowser this
      then (case localStorage h of
              None \<Rightarrow> (Inl localStorage_not_defined, h)
            | Some ls \<Rightarrow>
                (Inr (filter (\<lambda>key. key \<noteq> [] \<and> prefix (storageKey this @ ''_'') key)
                        (keys_from 0 ls)), h))
      else (Inl fs_not_implemented, h))"

definition deleteDataset ::
  "DemonstrationStorage \<Rightarrow> string \<Rightarrow> host \<Rightarrow> (js_error + unit) \<times> host" where
  "deleteDataset this key h =
     (if isBrowser this
      then (case localStorage h of
              None \<Rightarrow> (Inl localStorage_not_defined, h)
            | Some ls \<Rightarrow> (Inr (), h\<lparr> localStorage := Some (removeItem key ls) \<rparr>))
      else (Inl fs_not_implemented, h))"

text \<open>
  \<open>getStorageSize\<close> sums \<open>value.length\<close> over the keys with the prefix; outside the
  browser it returns 0 and does not throw.
\<close>

definition getStorageSize :: "DemonstrationStorage \<Rightarrow> host \<Rightarrow> js_error + nat" where
  "getStorageSize this h =
     (if isBrowser this
      then (case localStorage h of
              None \<Rightarrow> Inl localStorage_not_defined
            | Some ls \<Rightarrow>
                Inr (sum_list
                  (map (\<lambda>key. case getItem key ls of None \<Rightarrow> 0 | Some v \<Rightarrow> length v)
                     (filter (\<lambda>key. key \<noteq> [] \<and> prefix (storageKey this @ ''_'') key)
                        (keys_from 0 ls)))))
      else Inr 0)"

text \<open>
  The key under which \<open>saveDataset\<close> stores a dataset: the storage key, an underscore
  and the file name, which is generated when none is given.
\<close>

definition saveDataset_key :: "string \<Rightarrow> DemonstrationStorage \<Rightarrow> string option \<Rightarrow> string" where
  "saveDataset_key timestamp this filename =
     storageKey this @ ''_'' @ or_default filename
       (''demonstrations_'' @ timestamp @ ''.''
          @ (if format this = ''json'' then ''json'' else ''bin''))"

text \<open>The keys of this instance's datasets, as \<open>listDatasets\<close> and \<open>getStorageSize\<close> find them.\<close>

definition dataset_keys :: "DemonstrationStorage \<Rightarrow> local_storage \<Rightarrow> string list" where
  "dataset_keys this ls =
     filter (\<lambda>key. key \<noteq> [] \<and> prefix (storageKey this @ ''_'') key) (keys_from 0 ls)"

text \<open>
  Hosts for the examples: a browser whose \<open>localStorage\<close> holds one dataset of this
  library (2 characters) and one foreign entry, the same storage in a host where \<open>window\<close>
  is no longer defined, and a host without \<open>window\<close> and \<open>localStorage\<close>. The example
  codec stores a dataset that is already its JSON text.
\<close>

definition example_store :: local_storage where
  "example_store =
     \<lparr> entries = [(''mimicrl_demonstrations_a.json'', ''{}''), (''other'', ''xyz'')],
       accepts = (\<lambda>content. True) \<rparr>"

definition browser_host :: host where
  "browser_host = \<lparr> window_defined = True, localStorage = Some example_store \<rparr>"

definition windowless_host :: host where
  "windowless_host = \<lparr> window_defined = False, localStorage = Some example_store \<rparr>"

definition node_host :: host where
  "node_host = \<lparr> window_defined = False, localStorage = None \<rparr>"

definition example_codec :: "string json_codec" where
  "example_codec = \<lparr> stringify = id, parse = Some \<rparr>"

section \<open>BehaviorCloningTrainer (src/unnamed/part_003)\<close>

subsection \<open>Configuration and constructor\<close>

datatype LossType = Mse | Crossentropy | Mixed


text \<open>\<open>Required<BehaviorCloningTrainerConfig>\<close>, the type of \<open>this.config\<close>.\<close>

record bc_config =
  learningRate :: real
  batchSize :: nat
  epochs :: nat
  lossType :: LossType
  weightDecay :: real
  validationSplit :: real

record BCTrainingStats =
  trainLoss :: jsval
  valLoss :: jsval
  epoch :: nat
  step :: nat

text \<open>
  The trainer's fields. \<open>optimizer\<close> is the learning rate that \<open>tf.train.adam\<close> was
  given; \<open>yieldChannelResolve\<close> holds the promise whose \<open>resolve\<close> function is stored, by
  its number. The \<open>MessageChannel\<close> itself is part of the host (see below).
\<close>

record BehaviorCloningTrainer =
  config :: bc_config
  optimizer :: real
  trainingStats :: BCTrainingStats
  yieldChannelResolve :: "nat option"



subsection \<open>The host: tensors, documents, tasks\<close>

text \<open>
  What the trainer runs in. Tensors are numbered; \<open>live_tensors\<close> are those allocated and
  not yet disposed. The host's task queue holds the messages posted on the trainer's
  \<open>MessageChannel\<close> and the timers set with \<open>setTimeout\<close>; \<open>resolved\<close> lists the promises
  that have been resolved. \<open>agent\<close> is the state of the policy network and of the
  optimizer, which \<open>tf\<close> changes. \<open>events\<close> is a log of what the training loop did, in
  order; it is not a field of the program.
\<close>

datatype task = PortMessage | Timeout nat

datatype yield_strategy = MessageChannelPost | SetTimeout0

datatype bc_event = TrainedBatch nat | Yielded yield_strategy nat | EpochFinished nat

record 'a bc_world =
  trainer :: BehaviorCloningTrainer
  agent :: 'a
  live_tensors :: "nat list"
  next_tensor :: nat
  pending_tasks :: "task list"
  resolved :: "nat list"
  next_promise :: nat
  events :: "bc_event list"

record document =
  hidden :: bool
  visibilityState :: string

text \<open>
  What the code cannot decide by itself: the document of the host at each yield (by the
  number of the promise the yield creates; \<open>None\<close> where \<open>document\<close> is not defined), the
  permutation \<open>shuffleArray\<close> draws with \<open>Math.random\<close> in each epoch, and what \<open>tf\<close>
  computes: the loss of a training step on a batch (given by the rows it gathers) and the
  agent after it, or the error it throws; and the validation loss.
\<close>

record 'a bc_env =
  document_at :: "nat \<Rightarrow> document option"
  shuffleArray :: "nat \<Rightarrow> nat list \<Rightarrow> nat list"
  trainBatch_tf :: "'a \<Rightarrow> nat list \<Rightarrow> (js_error + real) \<times> 'a"
  validation_tf :: "'a \<Rightarrow> js_error + real"

definition alloc_tensor :: "'a bc_world \<Rightarrow> nat \<times> 'a bc_world" where
  "alloc_tensor w =
     (next_tensor w,
      w\<lparr> live_tensors := next_tensor w # live_tensors w, next_tensor := Suc (next_tensor w) \<rparr>)"

definition dispose :: "nat \<Rightarrow> 'a bc_world \<Rightarrow> 'a bc_world" where
  "dispose t w = w\<lparr> live_tensors := removeAll t (live_tensors w) \<rparr>"

subsection \<open>yieldToEventLoop\<close>

text \<open>
  \<open>typeof document !== 'undefined' && (document.hidden || document.visibilityState === 'hidden')\<close>
\<close>

definition isHidden :: "document option \<Rightarrow> bool" where
  "isHidden d = (case d of None \<Rightarrow> False | Some doc \<Rightarrow> hidden doc \<or> visibilityState doc = ''hidden'')"

text \<open>
  \<open>yieldToEventLoop\<close> (lines 402 to 417) returns a new promise. Hidden: the executor
  stores the promise's \<open>resolve\<close> in \<open>yieldChannelResolve\<close> and posts a message on
  \<open>port2\<close>. Visible: it sets a timer whose callback is \<open>resolve\<close>.
\<close>

definition yieldToEventLoop :: "document option \<Rightarrow> 'a bc_world \<Rightarrow> nat \<times> 'a bc_world" where
  "yieldToEventLoop doc w =
     (let p = next_promise w
      in if isHidden doc
         then (p, w\<lparr> trainer := (trainer w)\<lparr> yieldChannelResolve := Some p \<rparr>,
                     pending_tasks := pending_tasks w @ [PortMessage],
                     next_promise := Suc p,
                     events := events w @ [Yielded MessageChannelPost p] \<rparr>)
         else (p, w\<lparr> pending_tasks := pending_tasks w @ [Timeout p],
                     next_promise := Suc p,
                     events := events w @ [Yielded SetTimeout0 p] \<rparr>))"

text \<open>
  The host runs a task. A message arrives at \<open>port1.onmessage\<close> (lines 70 to 75), which
  calls the stored \<open>resolve\<close>, if there is one, and clears it. A timer calls the
  \<open>resolve\<close> it was set with.
\<close>

definition run_task :: "task \<Rightarrow> 'a bc_world \<Rightarrow> 'a bc_world" where
  "run_task t w =
     (case t of
        PortMessage \<Rightarrow>
          (case yieldChannelResolve (trainer w) of
             None \<Rightarrow> w
           | Some p \<Rightarrow> w\<lparr> resolved := p # resolved w,
                          trainer := (trainer w)\<lparr> yieldChannelResolve := None \<rparr> \<rparr>)
      | Timeout p \<Rightarrow> w\<lparr> resolved := p # resolved w \<rparr>)"

definition run_tasks :: "task list \<Rightarrow> 'a bc_world \<Rightarrow> 'a bc_world" where
  "run_tasks ts w = fold run_task ts w"

text \<open>The host runs every pending task, in the order of the queue.\<close>

definition run_pending :: "'a bc_world \<Rightarrow> 'a bc_world" where
  "run_pending w = run_tasks (pending_tasks w) (w\<lparr> pending_tasks := [] \<rparr>)"

text \<open>
  \<open>await this.yieldToEventLoop()\<close>: the loop goes on once the host has run the pending
  tasks and the promise is resolved. If the promise is not resolved when no task is left,
  nothing will resolve it and the loop never goes on (\<open>None\<close>).
\<close>

definition await_yield :: "'a bc_env \<Rightarrow> 'a bc_world \<Rightarrow> 'a bc_world option" where
  "await_yield E w =
     (case yieldToEventLoop (document_at E (next_promise w)) w of
        (p, w1) \<Rightarrow>
          (let w2 = run_pending w1
           in if p \<in> set (resolved w2) then Some w2 else None))"

subsection \<open>trainBatch and trainEpoch\<close>

text \<open>
  \<open>trainBatch\<close> (lines 260 to 282) runs inside \<open>tf.tidy\<close>, which disposes every tensor
  created in it, also when the function throws: the live tensors are the same after it.
  The batch is given by the rows it gathers.
\<close>

definition trainBatch :: "'a bc_env \<Rightarrow> nat list \<Rightarrow> 'a bc_world \<Rightarrow> (js_error + real) \<times> 'a bc_world" where
  "trainBatch E batch w =
     (case trainBatch_tf E (agent w) batch of (r, a) \<Rightarrow> (r, w\<lparr> agent := a \<rparr>))"

text \<open>
  \<open>Math.ceil(totalSamples / batchSize)\<close>: with batch size 0 the quotient is Infinity, or
  NaN when there is no sample either. \<open>i < numBatches\<close> is always true for Infinity and
  always false for NaN.
\<close>

datatype loop_bound = Bounded nat | Unbounded | NotANumber

definition numBatches_of :: "nat \<Rightarrow> nat \<Rightarrow> loop_bound" where
  "numBatches_of totalSamples bs =
     (if bs = 0 then (if totalSamples = 0 then NotANumber else Unbounded)
      else Bounded ((totalSamples + bs - 1) div bs))"

fun below :: "nat \<Rightarrow> loop_bound \<Rightarrow> bool" where
  "below i (Bounded n) = (i < n)"
| "below i Unbounded = True"
| "below i NotANumber = False"

text \<open>
  One mini-batch step, lines 228 to 246: the three batch tensors are created, the batch
  is trained on, and the three tensors are disposed. When \<open>trainBatch\<close> throws, the
  exception leaves \<open>trainEpoch\<close> at line 240 and the \<open>dispose\<close> calls are not reached.
\<close>

definition trainEpoch_batch ::
  "'a bc_env \<Rightarrow> nat \<Rightarrow> nat \<Rightarrow> nat list \<Rightarrow> nat \<Rightarrow> 'a bc_world \<Rightarrow> (js_error + real) \<times> 'a bc_world" where
  "trainEpoch_batch E bs totalSamples indices i w =
     (let start = i * bs;
          stop = min (start + bs) totalSamples;
          batchIndices = drop start (take stop indices)
      in case alloc_tensor w of (batchIndicesTensor, w1) \<Rightarrow>
        (case alloc_tensor w1 of (batchObs, w2) \<Rightarrow>
        (case alloc_tensor w2 of (batchAct, w3) \<Rightarrow>
        (case trainBatch E batchIndices (w3\<lparr> events := events w3 @ [TrainedBatch i] \<rparr>) of
           (Inl e, w4) \<Rightarrow> (Inl e, w4)
         | (Inr loss, w4) \<Rightarrow>
             (Inr loss, dispose batchIndicesTensor (dispose batchAct (dispose batchObs w4)))))))"

text \<open>
  The loop of \<open>trainEpoch\<close>, lines 227 to 252, from batch \<open>i\<close> on. \<open>None\<close>: the loop
  never returns.
\<close>

partial_function (option) trainEpoch_loop ::
  "'a bc_env \<Rightarrow> nat \<Rightarrow> nat \<Rightarrow> nat list \<Rightarrow> loop_bound \<Rightarrow> nat \<Rightarrow> real \<Rightarrow> 'a bc_world
     \<Rightarrow> ((js_error + real) \<times> 'a bc_world) option" where
  "trainEpoch_loop E bs totalSamples indices numBatches i totalLoss w =
     (if below i numBatches
      then (case trainEpoch_batch E bs totalSamples indices i w of
              (Inl e, w1) \<Rightarrow> Some (Inl e, w1)
            | (Inr loss, w1) \<Rightarrow>
                (if i mod 10 = 0
                 then (case await_yield E w1 of
                         None \<Rightarrow> None
                       | Some w2 \<Rightarrow>
                           trainEpoch_loop E bs totalSamples indices numBatches (Suc i)
                             (totalLoss + loss) w2)
                 else trainEpoch_loop E bs totalSamples indices numBatches (Suc i)
                        (totalLoss + loss) w1))
      else Some (Inr totalLoss, w))"

declare trainEpoch_loop.simps [code]

text \<open>
  \<open>trainEpoch\<close> (lines 212 to 255) on data of \<open>totalSamples\<close> rows. The loss returned is
  \<open>totalLoss / numBatches\<close>, which is NaN when there is no batch.
\<close>

definition trainEpoch ::
  "'a bc_env \<Rightarrow> nat \<Rightarrow> nat \<Rightarrow> 'a bc_world \<Rightarrow> ((js_error + jsval) \<times> 'a bc_world) option" where
  "trainEpoch E totalSamples ep w =
     (let bs = batchSize (config (trainer w));
          numBatches = numBatches_of totalSamples bs;
          indices = shuffleArray E ep [0..<totalSamples]
      in case trainEpoch_loop E bs totalSamples indices numBatches 0 0 w of
           None \<Rightarrow> None
         | Some (Inl e, w1) \<Rightarrow> Some (Inl e, w1)
         | Some (Inr totalLoss, w1) \<Rightarrow>
             Some (Inr (case numBatches of
                          Bounded n \<Rightarrow> if n = 0 then JNaN else JNum (totalLoss / real n)
                        | Unbounded \<Rightarrow> JNum 0
                        | NotANumber \<Rightarrow> JNaN), w1))"

subsection \<open>train\<close>

text \<open>
  The tensors \<open>prepareTrainingData\<close> returns: the observation and action tensors and
  their number of rows.
\<close>

record tensor_data =
  observations_tensor :: nat
  actions_tensor :: nat
  data_rows :: nat

text \<open>
  The epoch loop of \<open>train\<close>, lines 118 to 145, from epoch \<open>e\<close> on. \<open>onProgress\<close> is the
  caller's callback, which returns (\<open>None\<close>) or throws.
\<close>

partial_function (option) train_epochs ::
  "'a bc_env \<Rightarrow> (nat \<Rightarrow> jsval \<Rightarrow> jsval \<Rightarrow> js_error option) option \<Rightarrow> tensor_data
     \<Rightarrow> tensor_data option \<Rightarrow> nat \<Rightarrow> 'a bc_world \<Rightarrow> ((js_error + unit) \<times> 'a bc_world) option" where
  "train_epochs E onProgress trainData valData e w =
     (if e < epochs (config (trainer w))
      then (case trainEpoch E (data_rows trainData) e w of
              None \<Rightarrow> None
            | Some (Inl err, w1) \<Rightarrow> Some (Inl err, w1)
            | Some (Inr loss, w1) \<Rightarrow>
                (case (case valData of
                         None \<Rightarrow> Inr 0
                       | Some v \<Rightarrow> if data_rows v > 0 then validation_tf E (agent w1) else Inr 0) of
                   Inl err \<Rightarrow> Some (Inl err, w1)
                 | Inr vl \<Rightarrow>
                     (let w2 = w1\<lparr> trainer := (trainer w1)\<lparr> trainingStats :=
                                  \<lparr> trainLoss = loss, valLoss = JNum vl, epoch = e + 1,
                                    step = (e + 1) * batchSize (config (trainer w1)) \<rparr> \<rparr> \<rparr>
                      in case (case onProgress of
                                 None \<Rightarrow> None
                               | Some callback \<Rightarrow> callback (e + 1) loss (JNum vl)) of
                           Some err \<Rightarrow> Some (Inl err, w2)
                         | None \<Rightarrow>
                             (case await_yield E (w2\<lparr> events := events w2 @ [EpochFinished (e + 1)] \<rparr>) of
                                None \<Rightarrow> None
                              | Some w3 \<Rightarrow> train_epochs E onProgress trainData valData (Suc e) w3))))
      else Some (Inr (), w))"

declare train_epochs.simps [code]

text \<open>
  \<open>train\<close> from line 117 on, after the dataset has been validated and the data tensors
  prepared: the epochs, then the disposal of the data tensors, then the statistics.
\<close>

definition train_prepared ::
  "'a bc_env \<Rightarrow> (nat \<Rightarrow> jsval \<Rightarrow> jsval \<Rightarrow> js_error option) option \<Rightarrow> tensor_data
     \<Rightarrow> tensor_data option \<Rightarrow> 'a bc_world \<Rightarrow> ((js_error + BCTrainingStats) \<times> 'a bc_world) option" where
  "train_prepared E onProgress trainData valData w =
     (case train_epochs E onProgress trainData valData 0 w of
        None \<Rightarrow> None
      | Some (Inl err, w1) \<Rightarrow> Some (Inl err, w1)
      | Some (Inr u, w1) \<Rightarrow>
          (let w2 = dispose (actions_tensor trainData) (dispose (observations_tensor trainData) w1);
               w3 = (case valData of
                       None \<Rightarrow> w2
                     | Some v \<Rightarrow> dispose (actions_tensor v) (dispose (observations_tensor v) w2))
           in Some (Inr (trainingStats (trainer w3)), w3)))"

subsection \<open>Reading the log\<close>







subsection \<open>Invariants and examples\<close>



text \<open>
  A trainer with batch size 2 and 2 epochs, in a world whose live tensors are the two data
  tensors (3 rows); a hidden document; a host in which the document is hidden at every
  other yield, the shuffle reverses, and every training step succeeds with loss 0.5; and
  the same host with a \<open>tf\<close> whose training step throws (a network whose input does not
  fit the observations).
\<close>

definition example_trainer :: BehaviorCloningTrainer where
  "example_trainer =
     \<lparr> config = \<lparr> learningRate = 0.001, batchSize = 2, epochs = 2, lossType = Mixed,
                    weightDecay = 0.0001, validationSplit = 0 \<rparr>,
       optimizer = 0.001,
       trainingStats = \<lparr> trainLoss = JNum 0, valLoss = JNum 0, epoch = 0, step = 0 \<rparr>,
       yieldChannelResolve = None \<rparr>"

definition example_world :: "unit bc_world" where
  "example_world =
     \<lparr> trainer = example_trainer, agent = (), live_tensors = [1, 0], next_tensor = 2,
       pending_tasks = [], resolved = [], next_promise = 0, events = [] \<rparr>"

definition example_data :: tensor_data where
  "example_data = \<lparr> observations_tensor = 0, actions_tensor = 1, data_rows = 3 \<rparr>"

definition hidden_document :: "document option" where
  "hidden_document = Some \<lparr> hidden = True, visibilityState = ''hidden'' \<rparr>"

definition example_env :: "unit bc_env" where
  "example_env =
     \<lparr> document_at = (\<lambda>k. if even k then hidden_document else None),
       shuffleArray = (\<lambda>e xs. rev xs),
       trainBatch_tf = (\<lambda>a batch. (Inr 0.5, a)),
       validation_tf = (\<lambda>a. Inr 0.25) \<rparr>"

definition failing_env :: "unit bc_env" where
  "failing_env =
     example_env\<lparr> trainBatch_tf := (\<lambda>a batch. (Inl (Error ''shape mismatch''), a)) \<rparr>"

section \<open>ModelManager (src/utils/ModelManager.ts)\<close>

text \<open>
  \<open>ModelData\<close>, what \<open>saveModel\<close> stores: the model's id, the serialized model and
  the metadata.
\<close>

record 'm ModelData =
  md_id :: string
  md_model :: 'm
  md_metadata :: js_object

text \<open>
  The manager's configuration fields; \<open>config.storagePrefix || 'saber_rl_'\<close> and so on.
\<close>

record ModelManager =
  storagePrefix :: string
  maxModels :: nat
  autoSaveInterval :: nat
  compressionEnabled :: bool

definition new_ModelManager ::
  "string option \<Rightarrow> nat option \<Rightarrow> nat option \<Rightarrow> bool option \<Rightarrow> ModelManager" where
  "new_ModelManager cfg_prefix cfg_maxModels cfg_interval cfg_compression =
     \<lparr> storagePrefix = or_default cfg_prefix ''saber_rl_'',
       maxModels = (case cfg_maxModels of None \<Rightarrow> 10 | Some n \<Rightarrow> if n = 0 then 10 else n),
       autoSaveInterval = (case cfg_interval of None \<Rightarrow> 50 | Some n \<Rightarrow> if n = 0 then 50 else n),
       compressionEnabled = (case cfg_compression of None \<Rightarrow> False | Some b \<Rightarrow> b) \<rparr>"

text \<open>
  What \<open>saveModel\<close> works on: \<open>localStorage\<close>, and the object store \<open>models\<close> of the
  IndexedDB database, keyed by the \<open>id\<close> of its records (\<open>None\<close> while \<open>this.db\<close> is
  \<open>null\<close>).
\<close>

record 'm mm_world =
  storage :: local_storage
  db_models :: "(string \<times> 'm ModelData) list option"

text \<open>
  What the code cannot decide by itself: \<open>JSON.stringify\<close> of a \<open>ModelData\<close>; the \<open>id\<close>
  that \<open>JSON.parse\<close> finds in a stored text (\<open>None\<close> when the text does not parse or has
  no truthy \<open>id\<close>); whether an IndexedDB request succeeds; the current time as ISO text;
  and the id \<open>generateModelId\<close> makes from the clock and \<open>Math.random\<close>.
\<close>

record 'm mm_env =
  stringify_model :: "'m ModelData \<Rightarrow> string"
  parsed_id :: "string \<Rightarrow> string option"
  idb_delete_succeeds :: "string \<Rightarrow> bool"
  idb_put_succeeds :: "'m ModelData \<Rightarrow> bool"
  now_iso :: string
  generated_model_id :: string

text \<open>
  The model passed to \<open>saveModel\<close>: its optional \<open>id\<close> and what \<open>serialize()\<close> returns
  or throws.
\<close>

record 'm SerializableModel =
  model_id :: "string option"
  serialize :: "js_error + 'm"

text \<open>The fixed key of the current model, and the key of a model addressed by its id
  (as \<open>loadModel\<close>, \<open>listModels\<close> and \<open>deleteModel\<close> build it).\<close>

definition current_model_key :: "ModelManager \<Rightarrow> string" where
  "current_model_key this = storagePrefix this @ ''current_model''"

definition model_entry_key :: "ModelManager \<Rightarrow> string \<Rightarrow> string" where
  "model_entry_key this modelId = storagePrefix this @ ''model_'' @ modelId"

text \<open>
  \<open>deleteFromIndexedDB('models', key)\<close> and \<open>saveToIndexedDB('models', data)\<close>: nothing
  happens without a database; a failed request rejects.
\<close>

definition deleteFromIndexedDB :: "'m mm_env \<Rightarrow> string \<Rightarrow> 'm mm_world \<Rightarrow> js_error + 'm mm_world" where
  "deleteFromIndexedDB E key w =
     (case db_models w of
        None \<Rightarrow> Inr w
      | Some records \<Rightarrow>
          if idb_delete_succeeds E key
          then Inr (w\<lparr> db_models := Some (AList.delete key records) \<rparr>)
          else Inl (Error ''IndexedDB request failed''))"

definition saveToIndexedDB :: "'m mm_env \<Rightarrow> 'm ModelData \<Rightarrow> 'm mm_world \<Rightarrow> js_error + 'm mm_world" where
  "saveToIndexedDB E data w =
     (case db_models w of
        None \<Rightarrow> Inr w
      | Some records \<Rightarrow>
          if idb_put_succeeds E data
          then Inr (w\<lparr> db_models := Some (AList.update (md_id data) data records) \<rparr>)
          else Inl (Error ''IndexedDB request failed''))"

text \<open>
  The test of \<open>cleanupOldModels\<close> (line 185):
  \<open>key && key.startsWith(this.storagePrefix) && key.includes('model_') && key !== FIXED_MODEL_KEY\<close>.
\<close>

definition is_old_model_key :: "ModelManager \<Rightarrow> string \<Rightarrow> bool" where
  "is_old_model_key this key \<longleftrightarrow>
     key \<noteq> [] \<and> prefix (storagePrefix this) key \<and> sublist ''model_'' key
     \<and> key \<noteq> current_model_key this"

text \<open>
  \<open>cleanupOldModels\<close> (lines 178 to 202): the keys to remove are collected first, then
  removed, then the model list is removed.
\<close>

definition cleanupOldModels :: "ModelManager \<Rightarrow> local_storage \<Rightarrow> local_storage" where
  "cleanupOldModels this ls =
     (let keysToRemove = filter (is_old_model_key this) (keys_from 0 ls);
          ls1 = fold removeItem keysToRemove ls
      in removeItem (storagePrefix this @ ''model_list'') ls1)"

text \<open>
  \<open>saveModel\<close> (lines 120 to 172). The removal of the old record from IndexedDB is inside
  a \<open>try\<close> whose \<open>catch\<close> ignores every error. An error of \<open>serialize\<close>, of
  \<open>setItem\<close> or of the IndexedDB \<open>put\<close> is logged and thrown again.
\<close>

definition saveModel ::
  "'m mm_env \<Rightarrow> ModelManager \<Rightarrow> 'm SerializableModel \<Rightarrow> js_object option \<Rightarrow> 'm mm_world
     \<Rightarrow> (js_error + string) \<times> 'm mm_world" where
  "saveModel E this model metadata w =
     (let FIXED_MODEL_KEY = current_model_key this;
          oldModelData = getItem FIXED_MODEL_KEY (storage w);
          w1 = (case oldModelData of
                  None \<Rightarrow> w
                | Some text \<Rightarrow>
                    if text = [] then w
                    else (case parsed_id E text of
                            None \<Rightarrow> w
                          | Some old_id \<Rightarrow>
                              (case deleteFromIndexedDB E old_id w of
                                 Inl e \<Rightarrow> w
                               | Inr w' \<Rightarrow> w')));
          w2 = w1\<lparr> storage := cleanupOldModels this (storage w1) \<rparr>;
          modelId = or_default (model_id model) (generated_model_id E)
      in case serialize model of
           Inl e \<Rightarrow> (Inl e, w2)
         | Inr serializedModel \<Rightarrow>
             (let modelData = \<lparr> md_id = modelId, md_model = serializedModel,
                                md_metadata = (spread metadata)
                                  (''savedAt'' \<mapsto> JStr (now_iso E), ''version'' \<mapsto> JStr ''1.0.0'') \<rparr>
              in case setItem FIXED_MODEL_KEY (stringify_model E modelData) (storage w2) of
                   Inl e \<Rightarrow> (Inl e, w2)
                 | Inr ls \<Rightarrow>
                     (let w3 = w2\<lparr> storage := ls \<rparr>
                      in case saveToIndexedDB E (modelData\<lparr> md_id := ''current_model'' \<rparr>) w3 of
                           Inl e \<Rightarrow> (Inl e, w3)
                         | Inr w4 \<Rightarrow> (Inr modelId, w4))))"

text \<open>
  The model entries of a manager in a storage: the keys that are the current model's key
  or pass the test of \<open>cleanupOldModels\<close>.
\<close>

definition model_keys :: "ModelManager \<Rightarrow> local_storage \<Rightarrow> string list" where
  "model_keys this ls =
     filter (\<lambda>key. key = current_model_key this \<or> is_old_model_key this key) (keys_from 0 ls)"

text \<open>
  For the examples: a manager with the default prefix; a storage that holds an old model
  under its own key, a current model, the model list and a foreign entry; a host whose
  JSON text of a \<open>ModelData\<close> is just its id, which finds no id in a stored text, and whose
  IndexedDB requests succeed; and a model without id whose \<open>serialize\<close> succeeds.
\<close>

definition example_manager :: ModelManager where
  "example_manager = new_ModelManager None None None None"

definition example_mm_world :: "unit mm_world" where
  "example_mm_world =
     \<lparr> storage = \<lparr> entries = [(''saber_rl_model_a'', ''old a''),
                                (''saber_rl_current_model'', ''old current''),
                                (''saber_rl_model_list'', ''[a]''),
                                (''other'', ''x'')],
                     accepts = (\<lambda>content. True) \<rparr>,
       db_models = Some [] \<rparr>"

definition example_mm_env :: "unit mm_env" where
  "example_mm_env =
     \<lparr> stringify_model = md_id,
       parsed_id = (\<lambda>text. None),
       idb_delete_succeeds = (\<lambda>key. True),
       idb_put_succeeds = (\<lambda>data. True),
       now_iso = ''2024-01-01T00:00:00.000Z'',
       generated_model_id = ''model_1_abc'' \<rparr>"

definition example_model :: "unit SerializableModel" where
  "example_model = \<lparr> model_id = None, serialize = Inr () \<rparr>"

text \<open>A model whose \<open>serialize\<close> throws.\<close>

definition unserializable_model :: "unit SerializableModel" where
  "unserializable_model = \<lparr> model_id = None, serialize = Inl (Error ''cannot serialize'') \<rparr>"

section \<open>Advantage estimation of PPOTrainer (spec, section 4.4, step 1)\<close>

text \<open>
  Modelled from the spec: \<open>PPOTrainer\<close> (\<open>src/MimicRL/training/PPOTrainer.ts\<close>) is
  missing from the sources, which only show how it is called. The definitions below follow
  the words of the spec, section 3 (Transition, Trajectory) and section 4.4, step 1.
\<close>

text \<open>
  Modelled from the spec: the fields of a \<open>Transition\<close> that the recursion reads, the
  reward, the value estimate \<open>V(s_t)\<close> and the \<open>done\<close> flag. A trajectory is the list
  of its transitions in time order.
\<close>

record transition =
  t_reward :: real
  t_value :: real
  t_done :: bool

text \<open>Modelled from the spec: the factor \<open>(1 - done_t)\<close>.\<close>

definition not_done :: "transition \<Rightarrow> real" where
  "not_done tr = (if t_done tr then 0 else 1)"

text \<open>
  Modelled from the spec: the recursion
  \<open>\<delta>_t = r_t + \<gamma> V(s_{t+1}) (1 - done_t) - V(s_t)\<close>,
  \<open>A_t = \<delta>_t + \<gamma> \<lambda> (1 - done_t) A_{t+1}\<close>, walking backward from the last
  transition. \<open>v_after\<close> and \<open>a_after\<close> are the value and the advantage after the last
  step (the advantage after the last step is 0, or the bootstrap value if the trajectory
  is truncated).
\<close>

fun gae :: "real \<Rightarrow> real \<Rightarrow> real \<Rightarrow> real \<Rightarrow> transition list \<Rightarrow> real list" where
  "gae \<gamma> lam v_after a_after [] = []"
| "gae \<gamma> lam v_after a_after (tr # rest) =
     (let advantages = gae \<gamma> lam v_after a_after rest;
          v_next = (case rest of [] \<Rightarrow> v_after | n # later \<Rightarrow> t_value n);
          a_next = (case advantages of [] \<Rightarrow> a_after | a # later \<Rightarrow> a);
          delta = t_reward tr + \<gamma> * v_next * not_done tr - t_value tr
      in (delta + \<gamma> * lam * not_done tr * a_next) # advantages)"

text \<open>Modelled from the spec: \<open>Return_t = A_t + V(s_t)\<close>.\<close>

definition gae_returns :: "real \<Rightarrow> real \<Rightarrow> real \<Rightarrow> real \<Rightarrow> transition list \<Rightarrow> real list" where
  "gae_returns \<gamma> lam v_after a_after trajectory =
     map2 (\<lambda>a tr. a + t_value tr) (gae \<gamma> lam v_after a_after trajectory) trajectory"

text \<open>
  Modelled from the spec: the one-step TD residual \<open>\<delta>_t\<close> of step \<open>t\<close>, read off the
  trajectory by its index.
\<close>

definition td_residual :: "real \<Rightarrow> real \<Rightarrow> transition list \<Rightarrow> nat \<Rightarrow> real" where
  "td_residual \<gamma> v_after trajectory t =
     t_reward (trajectory ! t)
       + \<gamma> * (if Suc t < length trajectory then t_value (trajectory ! Suc t) else v_after)
           * not_done (trajectory ! t)
       - t_value (trajectory ! t)"

text \<open>
  Modelled from the spec: the full discounted Monte-Carlo return from step \<open>t\<close>, the sum
  of the rewards from \<open>t\<close> to the end of the episode, each discounted by its distance
  from \<open>t\<close>.
\<close>

definition mc_return :: "real \<Rightarrow> transition list \<Rightarrow> nat \<Rightarrow> real" where
  "mc_return \<gamma> trajectory t =
     (\<Sum>k = t..<length trajectory. \<gamma> ^ (k - t) * t_reward (trajectory ! k))"

text \<open>
  Modelled from the spec: a trajectory of one episode that ended (not truncated). Its last
  transition, and no other, is \<open>done\<close>.
\<close>

definition episode_ended :: "transition list \<Rightarrow> bool" where
  "episode_ended trajectory \<longleftrightarrow>
     trajectory \<noteq> [] \<and> t_done (last trajectory)
     \<and> list_all (\<lambda>tr. \<not> t_done tr) (butlast trajectory)"

text \<open>An episode of three steps for the examples.\<close>

definition example_episode :: "transition list" where
  "example_episode =
     [\<lparr> t_reward = 1, t_value = 0.5, t_done = False \<rparr>,
      \<lparr> t_reward = 0, t_value = 0.25, t_done = False \<rparr>,
      \<lparr> t_reward = 2, t_value = 1, t_done = True \<rparr>]"

section \<open>Theorems\<close>

subsection \<open>DemonstrationCollector\<close>

lemma recordStep_not_recording:
  "\<not> isRecording c \<or> currentEpisode c = None \<Longrightarrow> recordStep obs act md c = c"
  by (auto simp: recordStep_def)

lemma endEpisode_not_recording:
  "\<not> isRecording c \<or> currentEpisode c = None \<Longrightarrow> endEpisode clk md c = (None, c)"
  by (auto simp: endEpisode_def)

lemma recordStep_recording:
  assumes "isRecording c" and "currentEpisode c = Some ep"
  shows "\<exists>st. observation st = obs \<and> action st = act
      \<and> step_metadata st ''stepIndex''
          = (case spread md ''stepIndex'' of
               None \<Rightarrow> Some (JNum (real (length (steps ep))))
             | Some v \<Rightarrow> Some v)
      \<and> recorded_steps (recordStep obs act md c) = recorded_steps c @ [st]
      \<and> (if maxBufferSize c \<le> real (length (steps ep) + 1)
          then episodeBuffer (recordStep obs act md c)
                 = episodeBuffer c @ [ep\<lparr>steps := steps ep @ [st]\<rparr>]
             \<and> currentEpisode (recordStep obs act md c) = Some (ep\<lparr>steps := []\<rparr>)
          else episodeBuffer (recordStep obs act md c) = episodeBuffer c
             \<and> currentEpisode (recordStep obs act md c)
                 = Some (ep\<lparr>steps := steps ep @ [st]\<rparr>))"
  using assms
  by (auto simp: recordStep_def flushCurrentEpisode_def recorded_steps_def Let_def map_add_def
           split: option.splits)

text \<open>
  Claim C10, as the code has it. When the collector is not recording (\<open>isRecording\<close> is
  false, or there is no current episode), \<open>recordStep\<close> returns the collector unchanged
  and \<open>endEpisode\<close> returns \<open>null\<close> and the collector unchanged. When it is recording,
  \<open>recordStep\<close> appends exactly one step, made of the given observation and action, to
  the steps the collector holds: the step is the new last step of the current episode
  object, which is moved to the buffer (and replaced by an empty episode of the same id)
  when it has reached \<open>maxBufferSize\<close> steps. The step's \<open>stepIndex\<close> is its position
  in that episode object unless the caller's \<open>stepMetadata\<close> has a \<open>stepIndex\<close>
  property of its own, which then takes its place.
\<close>

theorem collector_recordStep_endEpisode:
  "(\<not> isRecording c \<or> currentEpisode c = None \<longrightarrow>
      recordStep obs act md c = c \<and> endEpisode clk emd c = (None, c))
   \<and> (isRecording c \<and> currentEpisode c = Some ep \<longrightarrow>
      (\<exists>st. observation st = obs \<and> action st = act
        \<and> step_metadata st ''stepIndex''
            = (case spread md ''stepIndex'' of
                 None \<Rightarrow> Some (JNum (real (length (steps ep))))
               | Some v \<Rightarrow> Some v)
        \<and> recorded_steps (recordStep obs act md c) = recorded_steps c @ [st]
        \<and> (if maxBufferSize c \<le> real (length (steps ep) + 1)
            then episodeBuffer (recordStep obs act md c)
                   = episodeBuffer c @ [ep\<lparr>steps := steps ep @ [st]\<rparr>]
               \<and> currentEpisode (recordStep obs act md c) = Some (ep\<lparr>steps := []\<rparr>)
            else episodeBuffer (recordStep obs act md c) = episodeBuffer c
               \<and> currentEpisode (recordStep obs act md c)
                   = Some (ep\<lparr>steps := steps ep @ [st]\<rparr>))))"
proof -
  have idle: "\<not> isRecording c \<or> currentEpisode c = None \<longrightarrow>
      recordStep obs act md c = c \<and> endEpisode clk emd c = (None, c)"
    using recordStep_not_recording [of c obs act md] endEpisode_not_recording [of c clk emd]
    by blast
  have recording: "isRecording c \<and> currentEpisode c = Some ep \<longrightarrow>
      (\<exists>st. observation st = obs \<and> action st = act
        \<and> step_metadata st ''stepIndex''
            = (case spread md ''stepIndex'' of
                 None \<Rightarrow> Some (JNum (real (length (steps ep))))
               | Some v \<Rightarrow> Some v)
        \<and> recorded_steps (recordStep obs act md c) = recorded_steps c @ [st]
        \<and> (if maxBufferSize c \<le> real (length (steps ep) + 1)
            then episodeBuffer (recordStep obs act md c)
                   = episodeBuffer c @ [ep\<lparr>steps := steps ep @ [st]\<rparr>]
               \<and> currentEpisode (recordStep obs act md c) = Some (ep\<lparr>steps := []\<rparr>)
            else episodeBuffer (recordStep obs act md c) = episodeBuffer c
               \<and> currentEpisode (recordStep obs act md c)
                   = Some (ep\<lparr>steps := steps ep @ [st]\<rparr>)))"
    using recordStep_recording [of c ep obs act md] by blast
  from idle recording show ?thesis by (rule conjI)
qed

lemma recording_collector_reached:
  "clock_now clk = 1000 \<Longrightarrow>
     startEpisode clk ''ep1'' None (new_DemonstrationCollector None None) = recording_collector"
  by (simp add: startEpisode_def new_DemonstrationCollector_def recording_collector_def
        spread_def nullish_def)

text \<open>
  The theorem at concrete collectors: a new collector (not recording) ignores a step and,
  with any clock, an \<open>endEpisode\<close>; in the collector that is recording episode \<open>ep1\<close>,
  a step recorded without metadata is the first step of the episode and has \<open>stepIndex\<close>
  0.
\<close>

theorem collector_recordStep_endEpisode_witness:
  "\<forall>clk. \<not> isRecording (new_DemonstrationCollector None None)
   \<and> recordStep [1] [0] None (new_DemonstrationCollector None None)
       = new_DemonstrationCollector None None
   \<and> endEpisode clk None (new_DemonstrationCollector None None)
       = (None, new_DemonstrationCollector None None)
   \<and> isRecording recording_collector
   \<and> recorded_steps recording_collector = []
   \<and> length (recorded_steps (recordStep [1] [0] None recording_collector)) = 1
   \<and> step_metadata (last (recorded_steps (recordStep [1] [0] None recording_collector)))
        ''stepIndex'' = Some (JNum 0)"
proof
  fix clk :: js_clock
  let ?c0 = "new_DemonstrationCollector None None"
  let ?c1 = "recording_collector"
  let ?ep = "\<lparr> episode_id = ''ep1'', steps = [],
               episode_metadata = [''timestamp'' \<mapsto> JNum 1000] \<rparr>"
  have idle: "\<not> isRecording ?c0"
    by (simp add: new_DemonstrationCollector_def)
  have rec: "isRecording ?c1 \<and> currentEpisode ?c1 = Some ?ep"
    by (simp add: recording_collector_def)
  have held: "recorded_steps ?c1 = []"
    by (simp add: recorded_steps_def recording_collector_def)
  from collector_recordStep_endEpisode [of ?c0 "[1]" "[0]" None clk None ?ep] idle
  have a: "recordStep [1] [0] None ?c0 = ?c0 \<and> endEpisode clk None ?c0 = (None, ?c0)"
    by blast
  from collector_recordStep_endEpisode [of ?c1 "[1]" "[0]" None clk None ?ep] rec
  obtain st where st:
      "step_metadata st ''stepIndex'' = (case spread None ''stepIndex'' of
           None \<Rightarrow> Some (JNum (real (length (steps ?ep)))) | Some v \<Rightarrow> Some v)"
      "recorded_steps (recordStep [1] [0] None ?c1) = recorded_steps ?c1 @ [st]"
    by blast
  from st(1) have idx: "step_metadata st ''stepIndex'' = Some (JNum 0)"
    by (simp add: spread_def)
  from st(2) held have one: "recorded_steps (recordStep [1] [0] None ?c1) = [st]"
    by simp
  from idle a rec held one idx
  show "\<not> isRecording ?c0
   \<and> recordStep [1] [0] None ?c0 = ?c0
   \<and> endEpisode clk None ?c0 = (None, ?c0)
   \<and> isRecording ?c1
   \<and> recorded_steps ?c1 = []
   \<and> length (recorded_steps (recordStep [1] [0] None ?c1)) = 1
   \<and> step_metadata (last (recorded_steps (recordStep [1] [0] None ?c1)))
        ''stepIndex'' = Some (JNum 0)"
    by simp
qed

text \<open>
  Claim C10 as stated fails on the \<open>stepIndex\<close>: in the recording collector, a step
  recorded with metadata \<open>{stepIndex: 99}\<close> is the step at position 0 of the episode and
  carries \<open>stepIndex\<close> 99.
\<close>

theorem collector_stepIndex_counterexample:
  "recorded_steps (recordStep [1] [0] (Some [''stepIndex'' \<mapsto> JNum 99]) recording_collector)
   = [\<lparr> observation = [1], action = [0], step_metadata = [''stepIndex'' \<mapsto> JNum 99] \<rparr>]"
  by (simp add: recordStep_def recording_collector_def recorded_steps_def spread_def
        flushCurrentEpisode_def)

subsection \<open>DemonstrationStorage\<close>

lemma saveDataset_branch:
  "(fst (saveDataset codec ts this ds fn h) = Inl fs_not_implemented) = (\<not> isBrowser this)"
  by (auto simp: saveDataset_def Let_def setItem_def fs_not_implemented_def
        localStorage_not_defined_def
      split: option.splits sum.splits if_splits)

lemma loadDataset_branch:
  "(fst (loadDataset codec this key h) = Inl fs_not_implemented) = (\<not> isBrowser this)"
  by (auto simp: loadDataset_def fs_not_implemented_def localStorage_not_defined_def
      split: option.splits)

lemma listDatasets_branch:
  "(fst (listDatasets this h) = Inl fs_not_implemented) = (\<not> isBrowser this)"
  by (auto simp: listDatasets_def fs_not_implemented_def localStorage_not_defined_def
      split: option.splits)

lemma deleteDataset_branch:
  "(fst (deleteDataset this key h) = Inl fs_not_implemented) = (\<not> isBrowser this)"
  by (auto simp: deleteDataset_def fs_not_implemented_def localStorage_not_defined_def
      split: option.splits)

lemma getStorageSize_outside_browser:
  "\<not> isBrowser this \<Longrightarrow> getStorageSize this h = Inr 0"
  by (simp add: getStorageSize_def)

lemma operations_ignore_window:
  assumes "localStorage h = localStorage h'"
  shows "fst (saveDataset codec ts this ds fn h) = fst (saveDataset codec ts this ds fn h')"
    and "fst (loadDataset codec this key h) = fst (loadDataset codec this key h')"
    and "fst (listDatasets this h) = fst (listDatasets this h')"
    and "fst (deleteDataset this key h) = fst (deleteDataset this key h')"
    and "getStorageSize this h = getStorageSize this h'"
  using assms
  by (auto simp: saveDataset_def loadDataset_def listDatasets_def deleteDataset_def
        getStorageSize_def Let_def
      split: option.splits sum.splits)

lemma outside_browser:
  assumes "\<not> isBrowser this"
  shows "saveDataset codec ts this ds fn h = (Inl fs_not_implemented, h)"
    and "loadDataset codec this key h = (Inl fs_not_implemented, h)"
    and "listDatasets this h = (Inl fs_not_implemented, h)"
    and "deleteDataset this key h = (Inl fs_not_implemented, h)"
    and "getStorageSize this h = Inr 0"
  using assms
  by (simp_all add: saveDataset_def loadDataset_def listDatasets_def deleteDataset_def
        getStorageSize_def Let_def)

lemma browser_without_localStorage:
  assumes "isBrowser this" and "localStorage h = None"
  shows "saveDataset codec ts this ds fn h = (Inl localStorage_not_defined, h)"
    and "loadDataset codec this key h = (Inl localStorage_not_defined, h)"
    and "listDatasets this h = (Inl localStorage_not_defined, h)"
    and "deleteDataset this key h = (Inl localStorage_not_defined, h)"
    and "getStorageSize this h = Inl localStorage_not_defined"
  using assms
  by (simp_all add: saveDataset_def loadDataset_def listDatasets_def deleteDataset_def
        getStorageSize_def Let_def)

lemma saveDataset_in_browser:
  assumes "isBrowser this" and "localStorage h = Some ls"
  shows "saveDataset codec ts this ds fn h
           = (case setItem (saveDataset_key ts this fn) (stringify codec ds) ls of
                Inl e \<Rightarrow> (Inl e, h)
              | Inr ls' \<Rightarrow> (Inr (saveDataset_key ts this fn), h\<lparr> localStorage := Some ls' \<rparr>))"
  using assms
  by (cases "setItem (saveDataset_key ts this fn) (stringify codec ds) ls")
     (simp_all add: saveDataset_def saveDataset_key_def Let_def)

lemma browser_with_localStorage:
  assumes "isBrowser this" and "localStorage h = Some ls"
  shows "loadDataset codec this key h
           = (case getItem key ls of
                None \<Rightarrow> (Inl (Error (''Dataset not found: '' @ key)), h)
              | Some json \<Rightarrow>
                  if json = [] then (Inl (Error (''Dataset not found: '' @ key)), h)
                  else (case parse codec json of
                          None \<Rightarrow> (Inl (Error ''SyntaxError''), h)
                        | Some dataset \<Rightarrow> (Inr dataset, h)))"
    and "listDatasets this h = (Inr (dataset_keys this ls), h)"
    and "deleteDataset this key h = (Inr (), h\<lparr> localStorage := Some (removeItem key ls) \<rparr>)"
    and "getStorageSize this h
           = Inr (sum_list (map (\<lambda>k. case getItem k ls of None \<Rightarrow> 0 | Some v \<Rightarrow> length v)
                 (dataset_keys this ls)))"
  using assms
  by (simp_all add: loadDataset_def listDatasets_def deleteDataset_def getStorageSize_def
        dataset_keys_def)

lemma window_is_not_read:
  "saveDataset codec ts this ds fn (h\<lparr> window_defined := b \<rparr>)
     = (fst (saveDataset codec ts this ds fn h),
        (snd (saveDataset codec ts this ds fn h))\<lparr> window_defined := b \<rparr>)"
  "loadDataset codec this key (h\<lparr> window_defined := b \<rparr>)
     = (fst (loadDataset codec this key h),
        (snd (loadDataset codec this key h))\<lparr> window_defined := b \<rparr>)"
  "listDatasets this (h\<lparr> window_defined := b \<rparr>)
     = (fst (listDatasets this h), (snd (listDatasets this h))\<lparr> window_defined := b \<rparr>)"
  "deleteDataset this key (h\<lparr> window_defined := b \<rparr>)
     = (fst (deleteDataset this key h),
        (snd (deleteDataset this key h))\<lparr> window_defined := b \<rparr>)"
  "getStorageSize this (h\<lparr> window_defined := b \<rparr>) = getStorageSize this h"
  by (auto simp: saveDataset_def loadDataset_def listDatasets_def deleteDataset_def
        getStorageSize_def Let_def split: option.splits sum.splits)

text \<open>
  Claim C6. The constructor decides \<open>isBrowser\<close> from the host it is run in, and no
  operation returns a changed instance. For an instance \<open>this\<close> and any host \<open>h\<close> at the
  time of a call, the branch an operation takes is fixed by \<open>isBrowser this\<close> alone:
  \<^item> \<open>saveDataset\<close>, \<open>loadDataset\<close>, \<open>listDatasets\<close> and \<open>deleteDataset\<close> throw the
    "File system storage not implemented" error exactly when the flag is false;
  \<^item> with the flag false, these four throw that error and leave the host as it is, and
    \<open>getStorageSize\<close> is 0, whatever \<open>window\<close> and \<open>localStorage\<close> are at that time;
  \<^item> with the flag true, all five take the \<open>localStorage\<close> branch whatever the host is
    at that time: where \<open>localStorage\<close> is missing they fail with the ReferenceError of
    reading it (they do not fall back to the other branch, and \<open>getStorageSize\<close> does
    not return 0), and where it is present they read and write it as the code says, the
    host being changed by \<open>saveDataset\<close> and \<open>deleteDataset\<close> only, in that storage;
  \<^item> no operation reads \<open>window\<close> at the time of the call: changing it in the host
    changes neither the result nor what is done to the host, and two hosts with the same
    \<open>localStorage\<close> give the same results.
\<close>

theorem storage_backend_decided_at_construction:
  "isBrowser (new_DemonstrationStorage h0 cfg_storageKey cfg_format)
     = (window_defined h0 \<and> localStorage h0 \<noteq> None)
   \<and> (fst (saveDataset codec ts this ds fn h) = Inl fs_not_implemented) = (\<not> isBrowser this)
   \<and> (fst (loadDataset codec this key h) = Inl fs_not_implemented) = (\<not> isBrowser this)
   \<and> (fst (listDatasets this h) = Inl fs_not_implemented) = (\<not> isBrowser this)
   \<and> (fst (deleteDataset this key h) = Inl fs_not_implemented) = (\<not> isBrowser this)
   \<and> (\<not> isBrowser this \<longrightarrow>
        saveDataset codec ts this ds fn h = (Inl fs_not_implemented, h)
      \<and> loadDataset codec this key h = (Inl fs_not_implemented, h)
      \<and> listDatasets this h = (Inl fs_not_implemented, h)
      \<and> deleteDataset this key h = (Inl fs_not_implemented, h)
      \<and> getStorageSize this h = Inr 0)
   \<and> (isBrowser this \<and> localStorage h = None \<longrightarrow>
        saveDataset codec ts this ds fn h = (Inl localStorage_not_defined, h)
      \<and> loadDataset codec this key h = (Inl localStorage_not_defined, h)
      \<and> listDatasets this h = (Inl localStorage_not_defined, h)
      \<and> deleteDataset this key h = (Inl localStorage_not_defined, h)
      \<and> getStorageSize this h = Inl localStorage_not_defined)
   \<and> (isBrowser this \<and> localStorage h = Some ls \<longrightarrow>
        saveDataset codec ts this ds fn h
          = (case setItem (saveDataset_key ts this fn) (stringify codec ds) ls of
               Inl e \<Rightarrow> (Inl e, h)
             | Inr ls' \<Rightarrow> (Inr (saveDataset_key ts this fn), h\<lparr> localStorage := Some ls' \<rparr>))
      \<and> loadDataset codec this key h
          = (case getItem key ls of
               None \<Rightarrow> (Inl (Error (''Dataset not found: '' @ key)), h)
             | Some json \<Rightarrow>
                 if json = [] then (Inl (Error (''Dataset not found: '' @ key)), h)
                 else (case parse codec json of
                         None \<Rightarrow> (Inl (Error ''SyntaxError''), h)
                       | Some dataset \<Rightarrow> (Inr dataset, h)))
      \<and> listDatasets this h = (Inr (dataset_keys this ls), h)
      \<and> deleteDataset this key h = (Inr (), h\<lparr> localStorage := Some (removeItem key ls) \<rparr>)
      \<and> getStorageSize this h
          = Inr (sum_list (map (\<lambda>k. case getItem k ls of None \<Rightarrow> 0 | Some v \<Rightarrow> length v)
                (dataset_keys this ls))))
   \<and> saveDataset codec ts this ds fn (h\<lparr> window_defined := b \<rparr>)
       = (fst (saveDataset codec ts this ds fn h),
          (snd (saveDataset codec ts this ds fn h))\<lparr> window_defined := b \<rparr>)
   \<and> loadDataset codec this key (h\<lparr> window_defined := b \<rparr>)
       = (fst (loadDataset codec this key h),
          (snd (loadDataset codec this key h))\<lparr> window_defined := b \<rparr>)
   \<and> listDatasets this (h\<lparr> window_defined := b \<rparr>)
       = (fst (listDatasets this h), (snd (listDatasets this h))\<lparr> window_defined := b \<rparr>)
   \<and> deleteDataset this key (h\<lparr> window_defined := b \<rparr>)
       = (fst (deleteDataset this key h),
          (snd (deleteDataset this key h))\<lparr> window_defined := b \<rparr>)
   \<and> getStorageSize this (h\<lparr> window_defined := b \<rparr>) = getStorageSize this h
   \<and> (localStorage h = localStorage h' \<longrightarrow>
        fst (saveDataset codec ts this ds fn h) = fst (saveDataset codec ts this ds fn h')
      \<and> fst (loadDataset codec this key h) = fst (loadDataset codec this key h')
      \<and> fst (listDatasets this h) = fst (listDatasets this h')
      \<and> fst (deleteDataset this key h) = fst (deleteDataset this key h')
      \<and> getStorageSize this h = getStorageSize this h')"
proof -
  have ctor: "isBrowser (new_DemonstrationStorage h0 cfg_storageKey cfg_format)
      = (window_defined h0 \<and> localStorage h0 \<noteq> None)"
    by (simp add: new_DemonstrationStorage_def)
  have outside: "\<not> isBrowser this \<longrightarrow>
        saveDataset codec ts this ds fn h = (Inl fs_not_implemented, h)
      \<and> loadDataset codec this key h = (Inl fs_not_implemented, h)
      \<and> listDatasets this h = (Inl fs_not_implemented, h)
      \<and> deleteDataset this key h = (Inl fs_not_implemented, h)
      \<and> getStorageSize this h = Inr 0"
  proof
    assume no: "\<not> isBrowser this"
    show "saveDataset codec ts this ds fn h = (Inl fs_not_implemented, h)
      \<and> loadDataset codec this key h = (Inl fs_not_implemented, h)
      \<and> listDatasets this h = (Inl fs_not_implemented, h)
      \<and> deleteDataset this key h = (Inl fs_not_implemented, h)
      \<and> getStorageSize this h = Inr 0"
      by (intro conjI outside_browser [OF no])
  qed
  have missing: "isBrowser this \<and> localStorage h = None \<longrightarrow>
        saveDataset codec ts this ds fn h = (Inl localStorage_not_defined, h)
      \<and> loadDataset codec this key h = (Inl localStorage_not_defined, h)
      \<and> listDatasets this h = (Inl localStorage_not_defined, h)
      \<and> deleteDataset this key h = (Inl localStorage_not_defined, h)
      \<and> getStorageSize this h = Inl localStorage_not_defined"
  proof
    assume "isBrowser this \<and> localStorage h = None"
    then have yes: "isBrowser this" and none: "localStorage h = None" by simp_all
    show "saveDataset codec ts this ds fn h = (Inl localStorage_not_defined, h)
      \<and> loadDataset codec this key h = (Inl localStorage_not_defined, h)
      \<and> listDatasets this h = (Inl localStorage_not_defined, h)
      \<and> deleteDataset this key h = (Inl localStorage_not_defined, h)
      \<and> getStorageSize this h = Inl localStorage_not_defined"
      by (intro conjI browser_without_localStorage [OF yes none])
  qed
  have present: "isBrowser this \<and> localStorage h = Some ls \<longrightarrow>
        saveDataset codec ts this ds fn h
          = (case setItem (saveDataset_key ts this fn) (stringify codec ds) ls of
               Inl e \<Rightarrow> (Inl e, h)
             | Inr ls' \<Rightarrow> (Inr (saveDataset_key ts this fn), h\<lparr> localStorage := Some ls' \<rparr>))
      \<and> loadDataset codec this key h
          = (case getItem key ls of
               None \<Rightarrow> (Inl (Error (''Dataset not found: '' @ key)), h)
             | Some json \<Rightarrow>
                 if json = [] then (Inl (Error (''Dataset not found: '' @ key)), h)
                 else (case parse codec json of
                         None \<Rightarrow> (Inl (Error ''SyntaxError''), h)
                       | Some dataset \<Rightarrow> (Inr dataset, h)))
      \<and> listDatasets this h = (Inr (dataset_keys this ls), h)
      \<and> deleteDataset this key h = (Inr (), h\<lparr> localStorage := Some (removeItem key ls) \<rparr>)
      \<and> getStorageSize this h
          = Inr (sum_list (map (\<lambda>k. case getItem k ls of None \<Rightarrow> 0 | Some v \<Rightarrow> length v)
                (dataset_keys this ls)))"
  proof
    assume "isBrowser this \<and> localStorage h = Some ls"
    then have yes: "isBrowser this" and some: "localStorage h = Some ls" by simp_all
    show "saveDataset codec ts this ds fn h
          = (case setItem (saveDataset_key ts this fn) (stringify codec ds) ls of
               Inl e \<Rightarrow> (Inl e, h)
             | Inr ls' \<Rightarrow> (Inr (saveDataset_key ts this fn), h\<lparr> localStorage := Some ls' \<rparr>))
      \<and> loadDataset codec this key h
          = (case getItem key ls of
               None \<Rightarrow> (Inl (Error (''Dataset not found: '' @ key)), h)
             | Some json \<Rightarrow>
                 if json = [] then (Inl (Error (''Dataset not found: '' @ key)), h)
                 else (case parse codec json of
                         None \<Rightarrow> (Inl (Error ''SyntaxError''), h)
                       | Some dataset \<Rightarrow> (Inr dataset, h)))
      \<and> listDatasets this h = (Inr (dataset_keys this ls), h)
      \<and> deleteDataset this key h = (Inr (), h\<lparr> localStorage := Some (removeItem key ls) \<rparr>)
      \<and> getStorageSize this h
          = Inr (sum_list (map (\<lambda>k. case getItem k ls of None \<Rightarrow> 0 | Some v \<Rightarrow> length v)
                (dataset_keys this ls)))"
      by (intro conjI saveDataset_in_browser [OF yes some] browser_with_localStorage [OF yes some])
  qed
  have same: "localStorage h = localStorage h' \<longrightarrow>
        fst (saveDataset codec ts this ds fn h) = fst (saveDataset codec ts this ds fn h')
      \<and> fst (loadDataset codec this key h) = fst (loadDataset codec this key h')
      \<and> fst (listDatasets this h) = fst (listDatasets this h')
      \<and> fst (deleteDataset this key h) = fst (deleteDataset this key h')
      \<and> getStorageSize this h = getStorageSize this h'"
  proof
    assume eq: "localStorage h = localStorage h'"
    show "fst (saveDataset codec ts this ds fn h) = fst (saveDataset codec ts this ds fn h')
      \<and> fst (loadDataset codec this key h) = fst (loadDataset codec this key h')
      \<and> fst (listDatasets this h) = fst (listDatasets this h')
      \<and> fst (deleteDataset this key h) = fst (deleteDataset this key h')
      \<and> getStorageSize this h = getStorageSize this h'"
      by (intro conjI operations_ignore_window [OF eq])
  qed
  show ?thesis
    by (intro conjI ctor saveDataset_branch loadDataset_branch listDatasets_branch
          deleteDataset_branch outside missing present window_is_not_read same)
qed

text \<open>
  The theorem at two instances. One is constructed in a host without \<open>window\<close> and
  called later in a browser whose storage holds a dataset: it throws the filesystem
  error and reports size 0. The other is constructed in that browser: called where
  \<open>window\<close> is no longer defined it still lists the dataset, reports its 2 characters
  and deletes it from the storage, and called where \<open>localStorage\<close> is gone it fails with
  the ReferenceError.
\<close>

theorem storage_backend_decided_at_construction_witness:
  "\<not> isBrowser (new_DemonstrationStorage node_host None None)
   \<and> listDatasets (new_DemonstrationStorage node_host None None) browser_host
       = (Inl fs_not_implemented, browser_host)
   \<and> getStorageSize (new_DemonstrationStorage node_host None None) browser_host = Inr 0
   \<and> isBrowser (new_DemonstrationStorage browser_host None None)
   \<and> localStorage windowless_host = Some example_store
   \<and> listDatasets (new_DemonstrationStorage browser_host None None) windowless_host
       = (Inr [''mimicrl_demonstrations_a.json''], windowless_host)
   \<and> getStorageSize (new_DemonstrationStorage browser_host None None) windowless_host = Inr 2
   \<and> deleteDataset (new_DemonstrationStorage browser_host None None)
         ''mimicrl_demonstrations_a.json'' windowless_host
       = (Inr (), windowless_host\<lparr> localStorage :=
            Some (example_store\<lparr> entries := [(''other'', ''xyz'')] \<rparr>) \<rparr>)
   \<and> localStorage node_host = None
   \<and> getStorageSize (new_DemonstrationStorage browser_host None None) node_host
       = Inl localStorage_not_defined
   \<and> listDatasets (new_DemonstrationStorage browser_host None None) node_host
       = (Inl localStorage_not_defined, node_host)"
proof -
  let ?node = "new_DemonstrationStorage node_host None None"
  let ?web = "new_DemonstrationStorage browser_host None None"
  let ?key = "''mimicrl_demonstrations_a.json''"
  note at_node = storage_backend_decided_at_construction
    [of node_host None None example_codec "''17''" ?node "''data''" None browser_host ?key
        example_store True browser_host]
  note at_web = storage_backend_decided_at_construction
    [of browser_host None None example_codec "''17''" ?web "''data''" None windowless_host ?key
        example_store True windowless_host]
  note at_gone = storage_backend_decided_at_construction
    [of browser_host None None example_codec "''17''" ?web "''data''" None node_host ?key
        example_store True node_host]
  have node_flag: "\<not> isBrowser ?node"
    using at_node by (simp add: node_host_def)
  have web_flag: "isBrowser ?web"
    using at_web by (simp add: browser_host_def)
  have store: "localStorage windowless_host = Some example_store"
    by (simp add: windowless_host_def)
  have gone: "localStorage node_host = None"
    by (simp add: node_host_def)
  have keys: "dataset_keys ?web example_store = [?key]"
    by (simp add: dataset_keys_def keys_from.simps storage_length_def storage_key_def
          example_store_def new_DemonstrationStorage_def or_default_def)
  have size: "sum_list (map (\<lambda>k. case getItem k example_store of None \<Rightarrow> 0 | Some v \<Rightarrow> length v)
        (dataset_keys ?web example_store)) = 2"
    by (simp add: keys) (simp add: getItem_def example_store_def)
  have removed: "removeItem ?key example_store
      = example_store\<lparr> entries := [(''other'', ''xyz'')] \<rparr>"
    by (simp add: removeItem_def example_store_def)
  from at_node node_flag
  have n1: "listDatasets ?node browser_host = (Inl fs_not_implemented, browser_host)"
    and n2: "getStorageSize ?node browser_host = Inr 0"
    by blast+
  from at_web web_flag store
  have w1: "listDatasets ?web windowless_host
        = (Inr (dataset_keys ?web example_store), windowless_host)"
    and w2: "getStorageSize ?web windowless_host
        = Inr (sum_list (map (\<lambda>k. case getItem k example_store of None \<Rightarrow> 0 | Some v \<Rightarrow> length v)
            (dataset_keys ?web example_store)))"
    and w3: "deleteDataset ?web ?key windowless_host
        = (Inr (), windowless_host\<lparr> localStorage := Some (removeItem ?key example_store) \<rparr>)"
    by blast+
  from at_gone web_flag gone
  have g1: "getStorageSize ?web node_host = Inl localStorage_not_defined"
    and g2: "listDatasets ?web node_host = (Inl localStorage_not_defined, node_host)"
    by blast+
  from w1 keys have w1': "listDatasets ?web windowless_host = (Inr [?key], windowless_host)"
    by simp
  from w2 size have w2': "getStorageSize ?web windowless_host = Inr 2"
    by simp
  from w3 removed have w3': "deleteDataset ?web ?key windowless_host
      = (Inr (), windowless_host\<lparr> localStorage :=
            Some (example_store\<lparr> entries := [(''other'', ''xyz'')] \<rparr>) \<rparr>)"
    by simp
  show ?thesis
    by (intro conjI node_flag n1 n2 web_flag store w1' w2' w3' gone g1 g2)
qed

subsection \<open>BehaviorCloningTrainer: the constructor\<close>





subsection \<open>BehaviorCloningTrainer: yielding to the event loop\<close>













subsection \<open>BehaviorCloningTrainer: the training loops\<close>




lemma trainEpoch_batch_leaks:
  assumes "trainEpoch_batch E bs n idx i w = (Inl e, w')"
  shows "live_tensors w'
     = [next_tensor w + 2, next_tensor w + 1, next_tensor w] @ live_tensors w"
  using assms
  by (auto simp: trainEpoch_batch_def Let_def alloc_tensor_def trainBatch_def dispose_def
      split: prod.splits sum.splits)












subsection \<open>BehaviorCloningTrainer: the yield strategy resolves\<close>





subsection \<open>BehaviorCloningTrainer: cadence of the yields, and the batch tensors\<close>





lemmas bc_eval = trainEpoch_def trainEpoch_batch_def trainBatch_def alloc_tensor_def dispose_def
  await_yield_def yieldToEventLoop_def run_pending_def run_tasks_def run_task_def isHidden_def
  numBatches_of_def Let_def train_prepared_def
  example_env_def example_world_def example_trainer_def hidden_document_def example_data_def


text \<open>
  Claim C2 fails on the code where the training computation of a step fails. In the
  example world the two data tensors are live. With a \<open>tf\<close> whose training step throws,
  \<open>trainEpoch\<close> throws at its first mini-batch and the three batch tensors of that
  step (2, 3 and 4) are still live afterwards: nothing disposes them.
\<close>

theorem batch_buffers_leak_when_trainBatch_throws:
  "live_tensors example_world = [1, 0]
   \<and> trainEpoch failing_env 3 0 example_world
       = Some (Inl (Error ''shape mismatch''),
               example_world\<lparr> live_tensors := [4, 3, 2, 1, 0], next_tensor := 5,
                               events := [TrainedBatch 0] \<rparr>)"
  by (simp add: bc_eval trainEpoch_loop.simps failing_env_def)

subsection \<open>ModelManager\<close>

lemma keys_from_entries: "keys_from i s = map fst (drop i (entries s))"
proof (induction "length (entries s) - i" arbitrary: i)
  case 0
  then show ?case by (subst keys_from.simps) (simp add: storage_length_def)
next
  case (Suc n)
  then have lt: "i < length (entries s)" by simp
  then have "drop i (entries s) = entries s ! i # drop (Suc i) (entries s)"
    by (simp add: Cons_nth_drop_Suc)
  moreover from Suc have "keys_from (Suc i) s = map fst (drop (Suc i) (entries s))" by simp
  ultimately show ?case using lt
    by (subst keys_from.simps) (simp add: storage_length_def storage_key_def)
qed

lemma getItem_removeItem:
  "getItem k (removeItem k' s) = (if k = k' then None else getItem k s)"
  by (simp add: getItem_def removeItem_def delete_conv')

lemma getItem_fold_removeItem:
  "getItem k (fold removeItem ks s) = (if k \<in> set ks then None else getItem k s)"
  by (induction ks arbitrary: s) (auto simp: getItem_removeItem)

lemma getItem_setItem:
  "setItem k v s = Inr s' \<Longrightarrow> getItem k' s' = (if k' = k then Some v else getItem k' s)"
  by (auto simp: setItem_def getItem_def update_conv' split: if_splits)

lemma getItem_absent: "k \<notin> set (keys_from 0 s) \<Longrightarrow> getItem k s = None"
  by (simp add: keys_from_entries getItem_def map_of_eq_None_iff)

lemma getItem_present: "k \<in> set (keys_from 0 s) \<Longrightarrow> getItem k s \<noteq> None"
  by (simp add: keys_from_entries getItem_def map_of_eq_None_iff)

lemma model_list_is_old:
  "is_old_model_key this (storagePrefix this @ ''model_list'')"
proof -
  have "sublist ''model_'' (storagePrefix this @ ''model_'' @ ''list'')"
    by (rule sublist_appendI)
  then show ?thesis
    by (simp add: is_old_model_key_def current_model_key_def)
qed

lemma model_entry_is_old:
  "is_old_model_key this (model_entry_key this modelId)"
proof -
  have "sublist ''model_'' (storagePrefix this @ ''model_'' @ modelId)"
    by (rule sublist_appendI)
  then show ?thesis
    by (simp add: is_old_model_key_def current_model_key_def model_entry_key_def)
qed

lemma cleanup_getItem:
  "getItem k (cleanupOldModels this ls) = (if is_old_model_key this k then None else getItem k ls)"
proof (cases "is_old_model_key this k")
  case True
  show ?thesis
  proof (cases "k \<in> set (keys_from 0 ls)")
    case in_keys: True
    with True show ?thesis
      by (simp add: cleanupOldModels_def Let_def getItem_removeItem getItem_fold_removeItem)
  next
    case False
    with True getItem_absent [OF False] show ?thesis
      by (simp add: cleanupOldModels_def Let_def getItem_removeItem getItem_fold_removeItem)
  qed
next
  case False
  with model_list_is_old [of this] have "k \<noteq> storagePrefix this @ ''model_list''" by auto
  with False show ?thesis
    by (simp add: cleanupOldModels_def Let_def getItem_removeItem getItem_fold_removeItem)
qed

lemma saveModel_removes_old:
  assumes "saveModel E this model md w = (r, w')" and "is_old_model_key this k"
  shows "getItem k (storage w') = None"
proof -
  have neq: "k \<noteq> current_model_key this" using assms(2) by (simp add: is_old_model_key_def)
  from assms(1) show ?thesis
    by (auto simp: saveModel_def Let_def deleteFromIndexedDB_def saveToIndexedDB_def
          cleanup_getItem assms(2) neq
        dest!: getItem_setItem [where k' = k]
        split: option.splits sum.splits if_splits)
qed

lemma saveModel_frame:
  assumes "saveModel E this model md w = (r, w')" and "\<not> is_old_model_key this k"
    and "k \<noteq> current_model_key this"
  shows "getItem k (storage w') = getItem k (storage w)"
  using assms(1)
  by (auto simp: saveModel_def Let_def deleteFromIndexedDB_def saveToIndexedDB_def
        cleanup_getItem assms(2,3)
      dest!: getItem_setItem [where k' = k]
      split: option.splits sum.splits if_splits)

lemma fixed_not_old: "\<not> is_old_model_key this (current_model_key this)"
  by (simp add: is_old_model_key_def)

lemma saveModel_written:
  assumes "saveModel E this model md w = (Inr modelId, w')"
  shows "\<exists>m. serialize model = Inr m
     \<and> modelId = or_default (model_id model) (generated_model_id E)
     \<and> getItem (current_model_key this) (storage w')
         = Some (stringify_model E
             \<lparr> md_id = modelId, md_model = m,
               md_metadata = (spread md)
                 (''savedAt'' \<mapsto> JStr (now_iso E), ''version'' \<mapsto> JStr ''1.0.0'') \<rparr>)
     \<and> (\<forall>records. db_models w' = Some records \<longrightarrow>
           map_of records ''current_model''
             = Some \<lparr> md_id = ''current_model'', md_model = m,
                      md_metadata = (spread md)
                        (''savedAt'' \<mapsto> JStr (now_iso E), ''version'' \<mapsto> JStr ''1.0.0'') \<rparr>)"
  using assms
  by (auto simp: saveModel_def Let_def deleteFromIndexedDB_def saveToIndexedDB_def update_conv'
      dest!: getItem_setItem [where k' = "current_model_key this"]
      split: option.splits sum.splits if_splits)

lemma model_keys_after_save:
  assumes "saveModel E this model md w = (Inr modelId, w')"
  shows "set (model_keys this (storage w')) = {current_model_key this}"
proof
  show "set (model_keys this (storage w')) \<subseteq> {current_model_key this}"
  proof
    fix k assume k: "k \<in> set (model_keys this (storage w'))"
    then have inkeys: "k \<in> set (keys_from 0 (storage w'))"
      and disj: "k = current_model_key this \<or> is_old_model_key this k"
      by (simp_all add: model_keys_def)
    from getItem_present [OF inkeys] saveModel_removes_old [OF assms, of k] disj
    show "k \<in> {current_model_key this}" by auto
  qed
next
  from saveModel_written [OF assms]
  have "getItem (current_model_key this) (storage w') \<noteq> None" by auto
  then have "current_model_key this \<in> set (keys_from 0 (storage w'))"
    by (simp add: keys_from_entries getItem_def map_of_eq_None_iff)
  then show "{current_model_key this} \<subseteq> set (model_keys this (storage w'))"
    by (simp add: model_keys_def)
qed

lemma distinct_fold_removeItem:
  "distinct (map fst (entries s)) \<Longrightarrow> distinct (map fst (entries (fold removeItem ks s)))"
  by (induction ks arbitrary: s) (simp_all add: removeItem_def distinct_delete)

lemma distinct_cleanup:
  "distinct (map fst (entries s)) \<Longrightarrow> distinct (map fst (entries (cleanupOldModels this s)))"
  by (simp add: cleanupOldModels_def Let_def removeItem_def distinct_delete distinct_fold_removeItem)

lemma saveModel_distinct:
  assumes "saveModel E this model md w = (r, w')"
    and "distinct (map fst (entries (storage w)))"
  shows "distinct (map fst (entries (storage w')))"
  using assms
  by (auto simp: saveModel_def Let_def deleteFromIndexedDB_def saveToIndexedDB_def setItem_def
        distinct_cleanup distinct_update
      split: option.splits sum.splits if_splits)

lemma distinct_singleton_list:
  assumes "distinct xs" and "set xs = {a}"
  shows "xs = [a]"
proof (cases xs)
  case Nil
  with assms(2) show ?thesis by simp
next
  case (Cons x list)
  with assms(2) have x: "x = a" by auto
  have "list = []"
  proof (cases list)
    case Nil
    then show ?thesis .
  next
    case inner: (Cons y ys)
    with assms(2) Cons have "y = a" by auto
    with assms(1) x Cons inner show ?thesis by simp
  qed
  with Cons x show ?thesis by simp
qed

lemma model_keys_exactly_one:
  assumes "saveModel E this model md w = (Inr modelId, w')"
    and "distinct (keys_from 0 (storage w))"
  shows "model_keys this (storage w') = [current_model_key this]"
proof -
  from assms(2) have "distinct (map fst (entries (storage w)))"
    by (simp add: keys_from_entries)
  from saveModel_distinct [OF assms(1) this]
  have "distinct (keys_from 0 (storage w'))" by (simp add: keys_from_entries)
  then have "distinct (model_keys this (storage w'))" by (simp add: model_keys_def)
  with model_keys_after_save [OF assms(1)] show ?thesis
    by (intro distinct_singleton_list)
qed

text \<open>
  Claim C3. After a call of \<open>saveModel\<close>, whether it returns or throws, no entry is
  left in \<open>localStorage\<close> under a key that starts with the prefix, contains \<open>model_\<close>
  and is not the fixed key; in particular no model stored under its own id
  (\<open><prefix>model_<id>\<close>) and no model list. Entries under other keys are as before. When
  the call returns, the entry under the fixed key \<open><prefix>current_model\<close> is the new
  model (with the id the call returns, which is the model's id or a generated one), the
  fixed key is the only model entry of the storage, found exactly once when the keys of
  the storage are distinct, and the IndexedDB store, when there is a database, holds the
  new model under the id \<open>current_model\<close>.
\<close>

theorem saveModel_keeps_one_current_model:
  "saveModel E this model md w = (r, w') \<longrightarrow>
     (is_old_model_key this k \<longrightarrow> getItem k (storage w') = None)
   \<and> getItem (model_entry_key this modelId) (storage w') = None
   \<and> getItem (storagePrefix this @ ''model_list'') (storage w') = None
   \<and> (\<not> is_old_model_key this k \<and> k \<noteq> current_model_key this \<longrightarrow>
        getItem k (storage w') = getItem k (storage w))
   \<and> (r = Inr saved \<longrightarrow>
        (\<exists>m. serialize model = Inr m
           \<and> saved = or_default (model_id model) (generated_model_id E)
           \<and> getItem (current_model_key this) (storage w')
               = Some (stringify_model E
                   \<lparr> md_id = saved, md_model = m,
                     md_metadata = (spread md)
                       (''savedAt'' \<mapsto> JStr (now_iso E), ''version'' \<mapsto> JStr ''1.0.0'') \<rparr>)
           \<and> (\<forall>records. db_models w' = Some records \<longrightarrow>
                 map_of records ''current_model''
                   = Some \<lparr> md_id = ''current_model'', md_model = m,
                            md_metadata = (spread md)
                              (''savedAt'' \<mapsto> JStr (now_iso E),
                               ''version'' \<mapsto> JStr ''1.0.0'') \<rparr>))
      \<and> set (model_keys this (storage w')) = {current_model_key this}
      \<and> (distinct (keys_from 0 (storage w)) \<longrightarrow>
           model_keys this (storage w') = [current_model_key this]))"
proof
  assume run: "saveModel E this model md w = (r, w')"
  have old: "is_old_model_key this k \<longrightarrow> getItem k (storage w') = None"
    using saveModel_removes_old [OF run, of k] by blast
  have entry: "getItem (model_entry_key this modelId) (storage w') = None"
    using saveModel_removes_old [OF run model_entry_is_old] .
  have list: "getItem (storagePrefix this @ ''model_list'') (storage w') = None"
    using saveModel_removes_old [OF run model_list_is_old] .
  have frame: "\<not> is_old_model_key this k \<and> k \<noteq> current_model_key this \<longrightarrow>
        getItem k (storage w') = getItem k (storage w)"
    using saveModel_frame [OF run, of k] by blast
  have returned: "r = Inr saved \<longrightarrow>
        (\<exists>m. serialize model = Inr m
           \<and> saved = or_default (model_id model) (generated_model_id E)
           \<and> getItem (current_model_key this) (storage w')
               = Some (stringify_model E
                   \<lparr> md_id = saved, md_model = m,
                     md_metadata = (spread md)
                       (''savedAt'' \<mapsto> JStr (now_iso E), ''version'' \<mapsto> JStr ''1.0.0'') \<rparr>)
           \<and> (\<forall>records. db_models w' = Some records \<longrightarrow>
                 map_of records ''current_model''
                   = Some \<lparr> md_id = ''current_model'', md_model = m,
                            md_metadata = (spread md)
                              (''savedAt'' \<mapsto> JStr (now_iso E),
                               ''version'' \<mapsto> JStr ''1.0.0'') \<rparr>))
      \<and> set (model_keys this (storage w')) = {current_model_key this}
      \<and> (distinct (keys_from 0 (storage w)) \<longrightarrow>
           model_keys this (storage w') = [current_model_key this])"
  proof
    assume "r = Inr saved"
    with run have ok: "saveModel E this model md w = (Inr saved, w')" by simp
    have one: "distinct (keys_from 0 (storage w)) \<longrightarrow>
           model_keys this (storage w') = [current_model_key this]"
      using model_keys_exactly_one [OF ok] by blast
    from saveModel_written [OF ok] model_keys_after_save [OF ok] one
    show "(\<exists>m. serialize model = Inr m
           \<and> saved = or_default (model_id model) (generated_model_id E)
           \<and> getItem (current_model_key this) (storage w')
               = Some (stringify_model E
                   \<lparr> md_id = saved, md_model = m,
                     md_metadata = (spread md)
                       (''savedAt'' \<mapsto> JStr (now_iso E), ''version'' \<mapsto> JStr ''1.0.0'') \<rparr>)
           \<and> (\<forall>records. db_models w' = Some records \<longrightarrow>
                 map_of records ''current_model''
                   = Some \<lparr> md_id = ''current_model'', md_model = m,
                            md_metadata = (spread md)
                              (''savedAt'' \<mapsto> JStr (now_iso E),
                               ''version'' \<mapsto> JStr ''1.0.0'') \<rparr>))
      \<and> set (model_keys this (storage w')) = {current_model_key this}
      \<and> (distinct (keys_from 0 (storage w)) \<longrightarrow>
           model_keys this (storage w') = [current_model_key this])"
      by (intro conjI)
  qed
  show "(is_old_model_key this k \<longrightarrow> getItem k (storage w') = None)
   \<and> getItem (model_entry_key this modelId) (storage w') = None
   \<and> getItem (storagePrefix this @ ''model_list'') (storage w') = None
   \<and> (\<not> is_old_model_key this k \<and> k \<noteq> current_model_key this \<longrightarrow>
        getItem k (storage w') = getItem k (storage w))
   \<and> (r = Inr saved \<longrightarrow>
        (\<exists>m. serialize model = Inr m
           \<and> saved = or_default (model_id model) (generated_model_id E)
           \<and> getItem (current_model_key this) (storage w')
               = Some (stringify_model E
                   \<lparr> md_id = saved, md_model = m,
                     md_metadata = (spread md)
                       (''savedAt'' \<mapsto> JStr (now_iso E), ''version'' \<mapsto> JStr ''1.0.0'') \<rparr>)
           \<and> (\<forall>records. db_models w' = Some records \<longrightarrow>
                 map_of records ''current_model''
                   = Some \<lparr> md_id = ''current_model'', md_model = m,
                            md_metadata = (spread md)
                              (''savedAt'' \<mapsto> JStr (now_iso E),
                               ''version'' \<mapsto> JStr ''1.0.0'') \<rparr>))
      \<and> set (model_keys this (storage w')) = {current_model_key this}
      \<and> (distinct (keys_from 0 (storage w)) \<longrightarrow>
           model_keys this (storage w') = [current_model_key this]))"
    by (intro conjI old entry list frame returned)
qed

text \<open>
  The theorem at the example: the call returns the generated id; afterwards the old model
  \<open>saber_rl_model_a\<close> and the model list are gone, the foreign entry is kept, the fixed
  key holds the new model, and it is the one model entry of the storage.
\<close>

theorem saveModel_keeps_one_current_model_witness:
  "fst (saveModel example_mm_env example_manager example_model None example_mm_world)
     = Inr ''model_1_abc''
   \<and> is_old_model_key example_manager ''saber_rl_model_a''
   \<and> getItem ''saber_rl_model_a'' (storage example_mm_world) = Some ''old a''
   \<and> getItem ''saber_rl_model_a''
        (storage (snd (saveModel example_mm_env example_manager example_model None
           example_mm_world))) = None
   \<and> getItem ''saber_rl_model_list''
        (storage (snd (saveModel example_mm_env example_manager example_model None
           example_mm_world))) = None
   \<and> getItem ''other''
        (storage (snd (saveModel example_mm_env example_manager example_model None
           example_mm_world))) = Some ''x''
   \<and> getItem ''saber_rl_current_model''
        (storage (snd (saveModel example_mm_env example_manager example_model None
           example_mm_world))) = Some ''model_1_abc''
   \<and> distinct (keys_from 0 (storage example_mm_world))
   \<and> model_keys example_manager
        (storage (snd (saveModel example_mm_env example_manager example_model None
           example_mm_world))) = [''saber_rl_current_model'']"
proof -
  let ?run = "saveModel example_mm_env example_manager example_model None example_mm_world"
  have res: "fst ?run = Inr ''model_1_abc''" by code_simp
  have run: "?run = (Inr ''model_1_abc'', snd ?run)"
    using res by (cases ?run) simp
  have prefix_is: "storagePrefix example_manager = ''saber_rl_''" by code_simp
  have fixed: "current_model_key example_manager = ''saber_rl_current_model''" by code_simp
  have old: "is_old_model_key example_manager ''saber_rl_model_a''" by code_simp
  have before: "getItem ''saber_rl_model_a'' (storage example_mm_world) = Some ''old a''"
    by code_simp
  have other: "\<not> is_old_model_key example_manager ''other''
      \<and> ''other'' \<noteq> current_model_key example_manager" by code_simp
  have other_before: "getItem ''other'' (storage example_mm_world) = Some ''x''" by code_simp
  have dist: "distinct (keys_from 0 (storage example_mm_world))" by code_simp
  have text_is: "stringify_model example_mm_env
        \<lparr> md_id = ''model_1_abc'', md_model = (),
          md_metadata = (spread None)
            (''savedAt'' \<mapsto> JStr (now_iso example_mm_env), ''version'' \<mapsto> JStr ''1.0.0'') \<rparr>
      = ''model_1_abc''"
    by (simp add: example_mm_env_def)
  note at_old = saveModel_keeps_one_current_model
    [of example_mm_env example_manager example_model None example_mm_world
        "Inr ''model_1_abc''" "snd ?run" "''saber_rl_model_a''" "''list''" "''model_1_abc''"]
  note at_other = saveModel_keeps_one_current_model
    [of example_mm_env example_manager example_model None example_mm_world
        "Inr ''model_1_abc''" "snd ?run" "''other''" "''list''" "''model_1_abc''"]
  from at_old run old have a: "getItem ''saber_rl_model_a'' (storage (snd ?run)) = None"
    by blast
  from at_old run prefix_is
  have b: "getItem ''saber_rl_model_list'' (storage (snd ?run)) = None"
    by simp
  from at_other run other other_before
  have c: "getItem ''other'' (storage (snd ?run)) = Some ''x''"
    by simp
  from at_old run obtain m where
    "getItem (current_model_key example_manager) (storage (snd ?run))
       = Some (stringify_model example_mm_env
           \<lparr> md_id = ''model_1_abc'', md_model = m,
             md_metadata = (spread None)
               (''savedAt'' \<mapsto> JStr (now_iso example_mm_env), ''version'' \<mapsto> JStr ''1.0.0'') \<rparr>)"
    by blast
  with fixed text_is
  have d: "getItem ''saber_rl_current_model'' (storage (snd ?run)) = Some ''model_1_abc''"
    by simp
  from at_old run dist fixed
  have e: "model_keys example_manager (storage (snd ?run)) = [''saber_rl_current_model'']"
    by simp
  show ?thesis
    by (intro conjI res old before a b c d dist e)
qed

text \<open>
  Claim C3 as stated fails for a call that throws. With a model whose \<open>serialize\<close>
  throws, \<open>saveModel\<close> throws after the cleanup: the old model \<open>saber_rl_model_a\<close> is
  removed, and the fixed key still holds the old current model, not the new one.
\<close>

theorem saveModel_throws_counterexample:
  "fst (saveModel example_mm_env example_manager unserializable_model None example_mm_world)
     = Inl (Error ''cannot serialize'')
   \<and> entries (storage (snd (saveModel example_mm_env example_manager unserializable_model None
        example_mm_world)))
     = [(''saber_rl_current_model'', ''old current''), (''other'', ''x'')]"
  by code_simp

subsection \<open>Advantage estimation\<close>

lemma length_gae: "length (gae \<gamma> l v a ts) = length ts"
  by (induction ts) (simp_all add: Let_def)

lemma gae_drop: "drop n (gae \<gamma> l v a ts) = gae \<gamma> l v a (drop n ts)"
proof (induction ts arbitrary: n)
  case Nil
  then show ?case by simp
next
  case (Cons tr rest)
  then show ?case by (cases n) (simp_all add: Let_def)
qed

lemma gae_nth_hd:
  assumes "t < length ts"
  shows "gae \<gamma> l v a ts ! t = hd (gae \<gamma> l v a (drop t ts))"
proof -
  from assms have "gae \<gamma> l v a ts ! t = hd (drop t (gae \<gamma> l v a ts))"
    by (simp add: hd_drop_conv_nth length_gae)
  then show ?thesis by (simp only: gae_drop)
qed

lemma case_list_hd:
  "(case xs of [] \<Rightarrow> d | x # later \<Rightarrow> f x) = (if xs = [] then d else f (hd xs))"
  by (cases xs) simp_all

lemma gae_Cons_hd:
  "hd (gae \<gamma> l v a (tr # rest))
     = t_reward tr + \<gamma> * (if rest = [] then v else t_value (hd rest)) * not_done tr - t_value tr
       + \<gamma> * l * not_done tr * (if rest = [] then a else hd (gae \<gamma> l v a rest))"
proof -
  have "gae \<gamma> l v a rest = [] \<longleftrightarrow> rest = []"
    using length_gae [of \<gamma> l v a rest] by (simp only: length_0_conv [symmetric])
  then show ?thesis by (simp add: Let_def case_list_hd)
qed

lemma gae_recursion:
  assumes "t < length ts"
  shows "gae \<gamma> l v a ts ! t
       = td_residual \<gamma> v ts t
         + \<gamma> * l * not_done (ts ! t)
             * (if Suc t < length ts then gae \<gamma> l v a ts ! Suc t else a)"
proof -
  from assms have d: "drop t ts = ts ! t # drop (Suc t) ts"
    by (simp add: Cons_nth_drop_Suc)
  have e: "drop (Suc t) ts = [] \<longleftrightarrow> \<not> Suc t < length ts" by auto
  have n: "Suc t < length ts \<Longrightarrow> hd (drop (Suc t) ts) = ts ! Suc t"
    by (simp add: hd_drop_conv_nth)
  have "gae \<gamma> l v a ts ! t = hd (gae \<gamma> l v a (ts ! t # drop (Suc t) ts))"
    using gae_nth_hd [OF assms, of \<gamma> l v a] by (simp only: d)
  also have "\<dots> = t_reward (ts ! t)
        + \<gamma> * (if Suc t < length ts then t_value (ts ! Suc t) else v) * not_done (ts ! t)
        - t_value (ts ! t)
        + \<gamma> * l * not_done (ts ! t)
            * (if Suc t < length ts then hd (gae \<gamma> l v a (drop (Suc t) ts)) else a)"
    unfolding gae_Cons_hd e using n by simp
  also have "(if Suc t < length ts then hd (gae \<gamma> l v a (drop (Suc t) ts)) else a)
           = (if Suc t < length ts then gae \<gamma> l v a ts ! Suc t else a)"
    using gae_nth_hd [of "Suc t" ts \<gamma> l v a] by simp
  finally show ?thesis by (simp only: td_residual_def)
qed

lemma gae_lambda_zero:
  assumes "t < length ts"
  shows "gae \<gamma> 0 v a ts ! t = td_residual \<gamma> v ts t"
  using gae_recursion [OF assms, of \<gamma> 0 v a] by simp

lemma mc_return_Cons:
  "mc_return \<gamma> (tr # rest) 0 = t_reward tr + \<gamma> * mc_return \<gamma> rest 0"
proof -
  have "mc_return \<gamma> (tr # rest) 0
      = (\<Sum>k = 0..<Suc (length rest). \<gamma> ^ k * t_reward ((tr # rest) ! k))"
    by (simp add: mc_return_def)
  also have "\<dots> = t_reward tr + (\<Sum>k = 0..<length rest. \<gamma> ^ Suc k * t_reward (rest ! k))"
    by (subst sum.atLeast0_lessThan_Suc_shift) simp
  also have "(\<Sum>k = 0..<length rest. \<gamma> ^ Suc k * t_reward (rest ! k))
      = \<gamma> * (\<Sum>k = 0..<length rest. \<gamma> ^ k * t_reward (rest ! k))"
    by (simp add: sum_distrib_left mult.assoc)
  finally show ?thesis by (simp add: mc_return_def)
qed

lemma gae_single:
  "t_done tr \<Longrightarrow> gae \<gamma> l v 0 [tr] = [t_reward tr - t_value tr]"
  by (simp add: Let_def not_done_def)

lemma mc_return_single: "mc_return \<gamma> [tr] 0 = t_reward tr"
  by (simp add: mc_return_def)

lemma gae_step:
  assumes "gae \<gamma> l v a (n # later) = a0 # as" and "\<not> t_done tr"
  shows "gae \<gamma> l v a (tr # n # later)
       = (t_reward tr + \<gamma> * t_value n - t_value tr + \<gamma> * l * a0) # a0 # as"
proof -
  have "gae \<gamma> l v a (tr # n # later)
      = (let advantages = gae \<gamma> l v a (n # later);
             a_next = (case advantages of [] \<Rightarrow> a | x # xs \<Rightarrow> x);
             delta = t_reward tr + \<gamma> * t_value n * not_done tr - t_value tr
         in (delta + \<gamma> * l * not_done tr * a_next) # advantages)"
    by (simp only: gae.simps list.case Let_def)
  with assms show ?thesis by (simp only: Let_def not_done_def list.case if_False mult_1_right mult_1)
qed

lemma episode_ended_single: "episode_ended [tr] \<longleftrightarrow> t_done tr"
  by (simp add: episode_ended_def)

lemma episode_ended_Cons:
  "episode_ended (tr # n # later) \<longleftrightarrow> \<not> t_done tr \<and> episode_ended (n # later)"
  by (auto simp: episode_ended_def)

lemma gae_lambda_one_hd:
  "episode_ended ts \<Longrightarrow> hd (gae \<gamma> 1 v 0 ts) = mc_return \<gamma> ts 0 - t_value (hd ts)"
proof (induction ts)
  case Nil
  then show ?case by (simp add: episode_ended_def)
next
  case (Cons tr rest)
  show ?case
  proof (cases rest)
    case Nil
    with Cons.prems have d: "t_done tr" by (simp only: episode_ended_single)
    show ?thesis
      unfolding Nil gae_single [OF d] mc_return_single by simp
  next
    case following: (Cons n later)
    from Cons.prems have ended: "episode_ended rest" and nd: "\<not> t_done tr"
      unfolding following episode_ended_Cons by simp_all
    from Cons.IH [OF ended]
    have ih: "hd (gae \<gamma> 1 v 0 (n # later)) = mc_return \<gamma> (n # later) 0 - t_value n"
      unfolding following by simp
    have "length (gae \<gamma> 1 v 0 (n # later)) = Suc (length later)"
      by (simp only: length_gae list.size)
    then obtain a0 as where g: "gae \<gamma> 1 v 0 (n # later) = a0 # as"
      by (cases "gae \<gamma> 1 v 0 (n # later)") simp_all
    from ih have a0: "a0 = mc_return \<gamma> (n # later) 0 - t_value n"
      unfolding g by simp
    have "hd (gae \<gamma> 1 v 0 (tr # n # later))
        = t_reward tr + \<gamma> * t_value n - t_value tr + \<gamma> * 1 * a0"
      unfolding gae_step [OF g nd] by simp
    also have "\<dots> = mc_return \<gamma> (tr # n # later) 0 - t_value tr"
      unfolding a0 mc_return_Cons [of \<gamma> tr "n # later"] by (simp add: algebra_simps)
    finally show ?thesis unfolding following by simp
  qed
qed

lemma mc_return_drop:
  assumes "t \<le> length ts"
  shows "mc_return \<gamma> (drop t ts) 0 = mc_return \<gamma> ts t"
proof -
  have "mc_return \<gamma> (drop t ts) 0
      = (\<Sum>k = 0..<length ts - t. \<gamma> ^ k * t_reward (ts ! (t + k)))"
    by (simp add: mc_return_def)
  also have "\<dots> = (\<Sum>k = t..<length ts. \<gamma> ^ (k - t) * t_reward (ts ! k))"
    using assms
    by (intro sum.reindex_bij_witness [where i = "\<lambda>k. k - t" and j = "\<lambda>k. t + k"]) auto
  finally show ?thesis by (simp add: mc_return_def)
qed

lemma episode_ended_drop:
  assumes "episode_ended ts" and "t < length ts"
  shows "episode_ended (drop t ts)"
proof -
  from assms have ne: "drop t ts \<noteq> []" by simp
  from assms have l: "t_done (last (drop t ts))" by (simp add: episode_ended_def)
  from assms(1) have "\<forall>tr \<in> set (butlast ts). \<not> t_done tr"
    by (simp add: episode_ended_def list_all_iff)
  moreover have "set (butlast (drop t ts)) \<subseteq> set (butlast ts)"
    by (simp only: butlast_drop set_drop_subset)
  ultimately have "list_all (\<lambda>tr. \<not> t_done tr) (butlast (drop t ts))"
    unfolding list_all_iff by blast
  with ne l show ?thesis by (simp add: episode_ended_def)
qed

lemma gae_lambda_one:
  assumes "episode_ended ts" and "t < length ts"
  shows "gae \<gamma> 1 v 0 ts ! t = mc_return \<gamma> ts t - t_value (ts ! t)"
proof -
  have "gae \<gamma> 1 v 0 ts ! t = hd (gae \<gamma> 1 v 0 (drop t ts))"
    by (rule gae_nth_hd [OF assms(2)])
  also have "\<dots> = mc_return \<gamma> (drop t ts) 0 - t_value (hd (drop t ts))"
    by (rule gae_lambda_one_hd [OF episode_ended_drop [OF assms]])
  also have "mc_return \<gamma> (drop t ts) 0 = mc_return \<gamma> ts t"
    using assms(2) by (intro mc_return_drop) simp
  also have "hd (drop t ts) = ts ! t"
    using assms(2) by (simp add: hd_drop_conv_nth)
  finally show ?thesis .
qed

text \<open>
  C4. For every trajectory the advantages obey the recursion
  \<open>A_t = \<delta>_t + \<gamma> \<lambda> (1 - done_t) A_{t+1}\<close>, with the advantage after the last step
  given (0, or the bootstrap value of a truncated trajectory). When \<open>\<lambda> = 0\<close> every
  \<open>A_t\<close> is the one-step TD residual \<open>\<delta>_t\<close>, whatever follows the last step. When
  \<open>\<lambda> = 1\<close> and the episode ended (the trajectory is not truncated, so the advantage
  after the last step is 0) every \<open>A_t\<close> is the full discounted Monte-Carlo return from
  \<open>t\<close> minus the baseline \<open>V(s_t)\<close>, and \<open>Return_t\<close> is that Monte-Carlo return.
\<close>

theorem gae_round_trip:
  "length (gae \<gamma> lam v a ts) = length ts
   \<and> (\<forall>t<length ts.
         gae \<gamma> lam v a ts ! t
           = td_residual \<gamma> v ts t
             + \<gamma> * lam * not_done (ts ! t)
                 * (if Suc t < length ts then gae \<gamma> lam v a ts ! Suc t else a))
   \<and> (\<forall>t<length ts. gae \<gamma> 0 v a ts ! t = td_residual \<gamma> v ts t)
   \<and> (episode_ended ts \<longrightarrow>
         (\<forall>t<length ts.
            gae \<gamma> 1 v 0 ts ! t = mc_return \<gamma> ts t - t_value (ts ! t)
            \<and> gae_returns \<gamma> 1 v 0 ts ! t = mc_return \<gamma> ts t))"
proof -
  have r: "\<forall>t<length ts.
         gae \<gamma> lam v a ts ! t
           = td_residual \<gamma> v ts t
             + \<gamma> * lam * not_done (ts ! t)
                 * (if Suc t < length ts then gae \<gamma> lam v a ts ! Suc t else a)"
    by (intro allI impI gae_recursion)
  have z: "\<forall>t<length ts. gae \<gamma> 0 v a ts ! t = td_residual \<gamma> v ts t"
    by (intro allI impI gae_lambda_zero)
  have o: "episode_ended ts \<longrightarrow>
         (\<forall>t<length ts.
            gae \<gamma> 1 v 0 ts ! t = mc_return \<gamma> ts t - t_value (ts ! t)
            \<and> gae_returns \<gamma> 1 v 0 ts ! t = mc_return \<gamma> ts t)"
  proof (intro impI allI)
    fix t
    assume ended: "episode_ended ts" and t: "t < length ts"
    have adv: "gae \<gamma> 1 v 0 ts ! t = mc_return \<gamma> ts t - t_value (ts ! t)"
      by (rule gae_lambda_one [OF ended t])
    from t have "gae_returns \<gamma> 1 v 0 ts ! t = gae \<gamma> 1 v 0 ts ! t + t_value (ts ! t)"
      by (simp add: gae_returns_def length_gae)
    with adv have "gae_returns \<gamma> 1 v 0 ts ! t = mc_return \<gamma> ts t" by simp
    with adv show "gae \<gamma> 1 v 0 ts ! t = mc_return \<gamma> ts t - t_value (ts ! t)
            \<and> gae_returns \<gamma> 1 v 0 ts ! t = mc_return \<gamma> ts t"
      by (rule conjI)
  qed
  from length_gae r z o show ?thesis by (intro conjI)
qed

lemma example_episode_ended: "episode_ended example_episode"
  by (simp add: episode_ended_def example_episode_def)

lemma example_episode_mc_return:
  "mc_return (1 / 2) example_episode 0 = 3 / 2
   \<and> mc_return (1 / 2) example_episode 1 = 1
   \<and> mc_return (1 / 2) example_episode 2 = 2"
  by (simp add: mc_return_def example_episode_def numeral_eq_Suc)

lemma example_episode_td_residual:
  "td_residual (1 / 2) 7 example_episode 0 = 5 / 8
   \<and> td_residual (1 / 2) 7 example_episode 1 = 1 / 4
   \<and> td_residual (1 / 2) 7 example_episode 2 = 1"
  by (simp add: td_residual_def not_done_def example_episode_def numeral_eq_Suc)

theorem gae_round_trip_witness:
  "episode_ended example_episode
   \<and> length (gae (1 / 2) 1 7 0 example_episode) = 3
   \<and> gae (1 / 2) 0 7 0 example_episode ! 0 = 5 / 8
   \<and> gae (1 / 2) 0 7 0 example_episode ! 1 = 1 / 4
   \<and> gae (1 / 2) 0 7 0 example_episode ! 2 = 1
   \<and> gae (1 / 2) 1 7 0 example_episode ! 0 = 3 / 2 - 1 / 2
   \<and> gae (1 / 2) 1 7 0 example_episode ! 1 = 1 - 1 / 4
   \<and> gae (1 / 2) 1 7 0 example_episode ! 2 = 2 - 1
   \<and> gae_returns (1 / 2) 1 7 0 example_episode ! 0 = 3 / 2"
proof -
  have len: "length example_episode = 3" by (simp add: example_episode_def)
  have vals: "t_value (example_episode ! 0) = 1 / 2" "t_value (example_episode ! 1) = 1 / 4"
    "t_value (example_episode ! 2) = 1"
    by (simp_all add: example_episode_def)
  note inst = gae_round_trip [of "1 / 2" 1 7 0 example_episode]
  from inst [THEN conjunct1] have l: "length (gae (1 / 2) 1 7 0 example_episode) = 3"
    by (simp only: len)
  from inst [THEN conjunct2, THEN conjunct2, THEN conjunct1]
  have z: "\<forall>t<3. gae (1 / 2) 0 7 0 example_episode ! t
      = td_residual (1 / 2) 7 example_episode t"
    by (simp only: len)
  from inst [THEN conjunct2, THEN conjunct2, THEN conjunct2, THEN mp, OF example_episode_ended]
  have o: "\<forall>t<3. gae (1 / 2) 1 7 0 example_episode ! t
             = mc_return (1 / 2) example_episode t - t_value (example_episode ! t)
           \<and> gae_returns (1 / 2) 1 7 0 example_episode ! t = mc_return (1 / 2) example_episode t"
    by (simp only: len)
  from z example_episode_td_residual
  have z0: "gae (1 / 2) 0 7 0 example_episode ! 0 = 5 / 8"
    and z1: "gae (1 / 2) 0 7 0 example_episode ! 1 = 1 / 4"
    and z2: "gae (1 / 2) 0 7 0 example_episode ! 2 = 1"
    by simp_all
  from o example_episode_mc_return vals
  have o0: "gae (1 / 2) 1 7 0 example_episode ! 0 = 3 / 2 - 1 / 2"
    and o1: "gae (1 / 2) 1 7 0 example_episode ! 1 = 1 - 1 / 4"
    and o2: "gae (1 / 2) 1 7 0 example_episode ! 2 = 2 - 1"
    and r0: "gae_returns (1 / 2) 1 7 0 example_episode ! 0 = 3 / 2"
    by simp_all
  from example_episode_ended l z0 z1 z2 o0 o1 o2 r0 show ?thesis by (intro conjI)
qed

end
